theory Spec2Isabelle
  imports Main "HOL-Library.Word"
begin

section \<open>JavaScript values used by the submit handler of \<^verbatim>\<open>src/script.js\<close>\<close>

text \<open>
  A JavaScript string is a sequence of UTF-16 code units. \<open>ascii\<close> embeds an ASCII
  literal of the source.
\<close>

type_synonym jschar = "16 word"
type_synonym jsstring = "jschar list"

definition ascii :: "string \<Rightarrow> jsstring" where
  "ascii s = map (\<lambda>c. of_nat (of_char c)) s"

text \<open>
  The code units that \<^verbatim>\<open>String.prototype.trim\<close> and \<^verbatim>\<open>parseInt\<close> strip:
  ECMAScript's WhiteSpace (TAB, VT, FF, SP, NBSP, ZWNBSP and the space separators) and
  LineTerminator (LF, CR, LS, PS).
\<close>

definition is_white_space :: "jschar \<Rightarrow> bool" where
  "is_white_space c \<longleftrightarrow>
     c \<in> set [0x9, 0xA, 0xB, 0xC, 0xD, 0x20, 0xA0, 0x1680, 0x2028, 0x2029, 0x202F,
               0x205F, 0x3000, 0xFEFF]
     \<or> (0x2000 \<le> c \<and> c \<le> 0x200A)"

definition trim :: "jsstring \<Rightarrow> jsstring" where
  "trim s = rev (dropWhile is_white_space (rev (dropWhile is_white_space s)))"

text \<open>
  \<^verbatim>\<open>x || d\<close> where \<open>x\<close> is a string, \<^verbatim>\<open>null\<close> or \<^verbatim>\<open>undefined\<close>: the empty string is
  falsy as well.
\<close>

definition or_default :: "jsstring option \<Rightarrow> jsstring \<Rightarrow> jsstring" where
  "or_default x d = (case x of None \<Rightarrow> d | Some s \<Rightarrow> if s = [] then d else s)"

text \<open>
  The Number values the handler computes with are \<^verbatim>\<open>NaN\<close> and integers. \<open>Num n\<close>
  stands for the Number \<open>n\<close>; subtracting one and printing in decimal are those of
  JavaScript on the safe integers (\<open>safe_integer\<close>), where a Number holds the integer
  exactly. The sign test of the credit gate only looks at the sign, which rounding to
  a Number keeps.
\<close>

datatype jsnum = NaN | Num int

definition safe_integer :: "int \<Rightarrow> bool" where
  "safe_integer n \<longleftrightarrow> \<bar>n\<bar> \<le> 2 ^ 53 - 1"

definition is_digit :: "jschar \<Rightarrow> bool" where
  "is_digit c \<longleftrightarrow> 0x30 \<le> c \<and> c \<le> 0x39"

definition digit_value :: "jschar \<Rightarrow> int" where
  "digit_value c = uint c - 48"

definition digits_value :: "jsstring \<Rightarrow> int" where
  "digits_value ds = foldl (\<lambda>acc c. 10 * acc + digit_value c) 0 ds"

text \<open>
  \<^verbatim>\<open>parseInt(s, 10)\<close>: skip leading white space, read an optional sign, take the
  longest prefix of decimal digits; no digit gives \<^verbatim>\<open>NaN\<close>. What follows the digits
  is ignored.
\<close>

definition parseInt10 :: "jsstring \<Rightarrow> jsnum" where
  "parseInt10 s =
     (let S = dropWhile is_white_space s;
          sign = (case S of [] \<Rightarrow> 1 | c # _ \<Rightarrow> if c = 0x2D then - 1 else (1::int));
          S' = (case S of [] \<Rightarrow> S | c # r \<Rightarrow> if c = 0x2B \<or> c = 0x2D then r else S);
          Z = takeWhile is_digit S'
      in if Z = [] then NaN else Num (sign * digits_value Z))"

text \<open>\<^verbatim>\<open>credits <= 0\<close>: every comparison with \<^verbatim>\<open>NaN\<close> is false.\<close>

definition js_le :: "jsnum \<Rightarrow> int \<Rightarrow> bool" where
  "js_le x k = (case x of NaN \<Rightarrow> False | Num n \<Rightarrow> n \<le> k)"

text \<open>\<^verbatim>\<open>credits > 0\<close>, the comparison the specification words the gate with.\<close>

definition js_gt :: "jsnum \<Rightarrow> int \<Rightarrow> bool" where
  "js_gt x k = (case x of NaN \<Rightarrow> False | Num n \<Rightarrow> n > k)"

text \<open>\<^verbatim>\<open>credits -= 1\<close>.\<close>

definition js_minus_one :: "jsnum \<Rightarrow> jsnum" where
  "js_minus_one x = (case x of NaN \<Rightarrow> NaN | Num n \<Rightarrow> Num (n - 1))"

fun digits_of_nat :: "nat \<Rightarrow> jsstring" where
  "digits_of_nat n =
     (if n < 10 then [of_nat (48 + n)]
      else digits_of_nat (n div 10) @ [of_nat (48 + n mod 10)])"

declare digits_of_nat.simps [simp del]

text \<open>
  The string a Number becomes when it is stored with \<^verbatim>\<open>localStorage.setItem\<close> or
  assigned to \<^verbatim>\<open>textContent\<close>.
\<close>

definition number_to_string :: "jsnum \<Rightarrow> jsstring" where
  "number_to_string x =
     (case x of
        NaN \<Rightarrow> ascii ''NaN''
      | Num n \<Rightarrow> if n < 0 then 0x2D # digits_of_nat (nat (- n)) else digits_of_nat (nat n))"

text \<open>
  A thrown value: an \<^verbatim>\<open>Error\<close> object with its name and message.
  \<^verbatim>\<open>error.message || error\<close> is the message, or the object converted to a string
  when the message is empty, which is then its name.
\<close>

datatype js_exn = Exn (exn_name: jsstring) (exn_message: jsstring)

definition error_text :: "js_exn \<Rightarrow> jsstring" where
  "error_text e = (if exn_message e \<noteq> [] then exn_message e else exn_name e)"

section \<open>The page, the storage and the network\<close>

type_synonym blob = "8 word list"

datatype severity = Info | Success | Error | Warning

record button =
  disabled :: bool
  innerHTML :: jsstring

text \<open>
  The part of the document the handler looks at. \<open>None\<close> is an element that is not in
  the document.
  \<^item> \<open>field_value i\<close>: the \<^verbatim>\<open>value\<close> of the element with id \<open>i\<close> (\<open>None\<close> also when the
    element has no value);
  \<^item> \<open>skill_tags\<close>: for each \<^verbatim>\<open>#skills-tags .skill-tag\<close> element in document order,
    the text of its first child (\<open>None\<close> when it has no child);
  \<^item> \<open>status_text\<close>: the text of \<^verbatim>\<open>#qh-status\<close>;
  \<^item> \<open>submit_button\<close>: the form's \<^verbatim>\<open>button[type="submit"]\<close>;
  \<^item> \<open>toast\<close>: the text and severity \<^verbatim>\<open>#qh-toast\<close> shows;
  \<^item> \<open>progress_container\<close>, \<open>progress_fill\<close>, \<open>progress_text\<close>: the \<^verbatim>\<open>style.display\<close>,
    the \<^verbatim>\<open>style.width\<close> and the text of the three progress elements;
  \<^item> \<open>credit_count\<close>: the text of \<^verbatim>\<open>#credit-count\<close>.
\<close>

record dom =
  field_value :: "jsstring \<rightharpoonup> jsstring"
  skill_tags :: "jsstring option list"
  status_text :: "jsstring option"
  submit_button :: "button option"
  toast :: "(jsstring \<times> severity) option"
  progress_container :: "jsstring option"
  progress_fill :: "jsstring option"
  progress_text :: "jsstring option"
  credit_count :: "jsstring option"

record form_data =
  current_position :: jsstring
  years_experience :: jsstring
  education :: jsstring
  skills :: "jsstring list"
  experience :: jsstring
  target_position :: jsstring
  achievements :: jsstring
  projects :: jsstring
  industry :: jsstring
  tone :: jsstring
  job_description :: jsstring

text \<open>
  What one run of the handler does that can be observed from outside, in order: the
  status announcements, the storage reads and writes, the toasts, the requests (with
  the record that is serialised as the body), the downloads, the progress and
  credit-count updates. The last three events are those of the form's second listener
  (its start and the callbacks of its interval, with the counter) and of the timer of
  line 156.
\<close>

datatype event =
    Announce jsstring
  | SetBusy bool
  | StorageGet jsstring
  | StorageSet jsstring jsstring
  | Toast jsstring severity
  | Fetch jsstring form_data
  | Download blob jsstring
  | ProgressReset
  | ProgressDone
  | ProgressHide
  | CreditCount jsstring
  | ConsoleError js_exn
  | AnimationStart
  | AnimationTick nat
  | ProgressTimeout

record world =
  dom :: dom
  storage :: "jsstring \<rightharpoonup> jsstring"
  trace :: "event list"

text \<open>
  A response of the server: its \<^verbatim>\<open>ok\<close> flag and what \<^verbatim>\<open>blob()\<close> resolves to (or
  rejects with). \<^verbatim>\<open>fetch\<close> itself rejects on a transport error.
\<close>

record response =
  ok :: bool
  blob_result :: "js_exn + blob"

datatype fetch_result = Rejected js_exn | Fulfilled response

text \<open>
  The environment of one run: the outcome of the request to each endpoint, should the
  handler issue it, and the message the engine puts into the \<^verbatim>\<open>TypeError\<close> of an
  assignment to a property of \<^verbatim>\<open>null\<close>.
\<close>

record env =
  resume_reply :: fetch_result
  cover_letter_reply :: fetch_result
  null_error_message :: jsstring

datatype stage = Validation | CreditGate | ResumeRequest | CoverLetterRequest | Unexpected

text \<open>
  How a run ends: \<open>Done\<close> at the end of the \<^verbatim>\<open>try\<close> block, \<open>Failed\<close> at one of the
  two early returns or in the \<^verbatim>\<open>catch\<close> block (with the place the exception came
  from), \<open>Uncaught\<close> when an exception leaves the handler.
\<close>

datatype outcome = Done | Failed stage | Uncaught

section \<open>String constants of the source\<close>

definition credits_key :: jsstring where "credits_key = ascii ''quickhire_credits''"
definition plan_key :: jsstring where "plan_key = ascii ''quickhire_plan''"
definition premium :: jsstring where "premium = ascii ''premium''"
definition free :: jsstring where "free = ascii ''free''"
definition resume_url :: jsstring where
  "resume_url = ascii ''http://localhost:8000/generate-resume''"
definition cover_letter_url :: jsstring where
  "cover_letter_url = ascii ''http://localhost:8000/generate-cover-letter''"
definition resume_filename :: jsstring where
  "resume_filename = ascii ''QuickHire_Resume.pdf''"
definition cover_letter_filename :: jsstring where
  "cover_letter_filename = ascii ''QuickHire_Cover_Letter.pdf''"
definition msg_generating :: jsstring where
  "msg_generating = ascii ''Generating documents...''"
definition msg_no_credits :: jsstring where
  "msg_no_credits = ascii ''No credits left. Please invite friends or upgrade.''"
definition msg_required :: jsstring where
  "msg_required = ascii ''Please fill out all required fields.''"
definition msg_resume_failed :: jsstring where
  "msg_resume_failed = ascii ''Failed to generate resume.''"
definition msg_cover_letter_failed :: jsstring where
  "msg_cover_letter_failed = ascii ''Failed to generate cover letter.''"
definition msg_ready :: jsstring where
  "msg_ready = ascii ''Your Resume & Cover Letter are ready!''"
definition msg_complete :: jsstring where
  "msg_complete = ascii ''Generation complete.''"
definition msg_error_occurred :: jsstring where
  "msg_error_occurred = ascii ''Error occurred.''"
definition error_prefix :: jsstring where
  "error_prefix = 0x274C # ascii '' Error: ''"
definition infinity_sign :: jsstring where
  "infinity_sign = [0x221E]"
definition spinner_html :: jsstring where
  "spinner_html = ascii ''<i class='' @ [0x22] @ ascii ''fas fa-spinner fa-spin'' @ [0x22]
     @ ascii ''></i> Generating...''"
definition msg_progress :: jsstring where
  "msg_progress = ascii ''Generating your documents...''"

section \<open>The helpers of the handler\<close>

definition emit :: "event \<Rightarrow> world \<Rightarrow> world" where
  "emit e w = w\<lparr>trace := trace w @ [e]\<rparr>"

text \<open>
  \<^verbatim>\<open>showToast(message, type)\<close>: the toast element is created when it is missing, and
  shows the message. The timer that fades it out is not part of the model.
\<close>

definition showToast :: "jsstring \<Rightarrow> severity \<Rightarrow> world \<Rightarrow> world" where
  "showToast message type w =
     emit (Toast message type) (w\<lparr>dom := (dom w)\<lparr>toast := Some (message, type)\<rparr>\<rparr>)"

text \<open>
  \<^verbatim>\<open>downloadBlob(blob, filename)\<close>: a hidden link to the blob is clicked, which offers
  the file to the user.
\<close>

definition downloadBlob :: "blob \<Rightarrow> jsstring \<Rightarrow> world \<Rightarrow> world" where
  "downloadBlob b filename w = emit (Download b filename) w"

text \<open>\<^verbatim>\<open>statusLive.textContent = t\<close>; the status element exists from line 64 on.\<close>

definition announce :: "jsstring \<Rightarrow> world \<Rightarrow> world" where
  "announce t w = emit (Announce t) (w\<lparr>dom := (dom w)\<lparr>status_text := Some t\<rparr>\<rparr>)"

definition getItem :: "jsstring \<Rightarrow> world \<Rightarrow> jsstring option \<times> world" where
  "getItem k w = (storage w k, emit (StorageGet k) w)"

definition setItem :: "jsstring \<Rightarrow> jsstring \<Rightarrow> world \<Rightarrow> world" where
  "setItem k v w = emit (StorageSet k v) (w\<lparr>storage := (storage w)(k \<mapsto> v)\<rparr>)"

text \<open>\<^verbatim>\<open>submitBtn.disabled = b; submitBtn.innerHTML = html\<close>.\<close>

definition set_button :: "bool \<Rightarrow> jsstring \<Rightarrow> world \<Rightarrow> world" where
  "set_button b html w =
     emit (SetBusy b)
       (w\<lparr>dom := (dom w)\<lparr>submit_button := Some \<lparr>disabled = b, innerHTML = html\<rparr>\<rparr>\<rparr>)"

definition has_progress :: "dom \<Rightarrow> bool" where
  "has_progress d \<longleftrightarrow>
     progress_container d \<noteq> None \<and> progress_fill d \<noteq> None \<and> progress_text d \<noteq> None"

text \<open>Lines 113 to 117.\<close>

definition progress_reset :: "world \<Rightarrow> world" where
  "progress_reset w =
     (if has_progress (dom w) then
        emit ProgressReset
          (w\<lparr>dom := (dom w)\<lparr>progress_container := Some (ascii ''block''),
                               progress_fill := Some (ascii ''0%''),
                               progress_text := Some msg_progress\<rparr>\<rparr>)
      else w)"

text \<open>
  Lines 153 to 155 and 157; the callback of the timer of line 156, which hides the bar
  afterwards, is \<open>progress_timeout\<close> below.
\<close>

definition progress_done :: "world \<Rightarrow> world" where
  "progress_done w =
     (if has_progress (dom w) then
        emit ProgressDone
          (w\<lparr>dom := (dom w)\<lparr>progress_fill := Some (ascii ''100%''),
                               progress_text := Some (ascii ''Done!'')\<rparr>\<rparr>)
      else w)"

text \<open>Line 162.\<close>

definition progress_hide :: "world \<Rightarrow> world" where
  "progress_hide w =
     (if progress_container (dom w) \<noteq> None then
        emit ProgressHide (w\<lparr>dom := (dom w)\<lparr>progress_container := Some (ascii ''none'')\<rparr>\<rparr>)
      else w)"

text \<open>
  Line 147, when the element exists: \<^verbatim>\<open>textContent\<close> of \<^verbatim>\<open>#credit-count\<close> is set.
\<close>

definition set_credit_count :: "jsstring \<Rightarrow> world \<Rightarrow> world" where
  "set_credit_count t w = emit (CreditCount t) (w\<lparr>dom := (dom w)\<lparr>credit_count := Some t\<rparr>\<rparr>)"

section \<open>Gathering and validating the form data\<close>

text \<open>\<^verbatim>\<open>getVal = id => (document.getElementById(id)?.value || '').trim()\<close>\<close>

definition getVal :: "dom \<Rightarrow> jsstring \<Rightarrow> jsstring" where
  "getVal d i = trim (or_default (field_value d i) [])"

text \<open>
  \<^verbatim>\<open>tag => tag.firstChild.textContent.trim()\<close> over the skill tags. A tag without a
  child makes the expression throw a \<^verbatim>\<open>TypeError\<close>: the result is \<open>None\<close>.
\<close>

fun skill_labels :: "jsstring option list \<Rightarrow> jsstring list option" where
  "skill_labels [] = Some []"
| "skill_labels (None # tags) = None"
| "skill_labels (Some t # tags) = map_option ((#) (trim t)) (skill_labels tags)"

definition formData :: "dom \<Rightarrow> form_data option" where
  "formData d =
     (case skill_labels (skill_tags d) of
        None \<Rightarrow> None
      | Some sk \<Rightarrow>
          Some \<lparr>current_position = getVal d (ascii ''currentPosition''),
                years_experience = getVal d (ascii ''yearsExperience''),
                education = getVal d (ascii ''education''),
                skills = sk,
                experience = getVal d (ascii ''experience''),
                target_position = getVal d (ascii ''targetPosition''),
                achievements = getVal d (ascii ''achievements''),
                projects = getVal d (ascii ''projects''),
                industry = getVal d (ascii ''industry''),
                tone = getVal d (ascii ''tone''),
                job_description = getVal d (ascii ''jobDescription'')\<rparr>)"

text \<open>
  The gathering step as a step of the handler on the world: it returns the record and
  the world it leaves behind.
\<close>

definition gather :: "world \<Rightarrow> form_data option \<times> world" where
  "gather w = (formData (dom w), w)"

text \<open>The keys of \<^verbatim>\<open>requiredFields\<close> and \<^verbatim>\<open>formData[key]\<close>.\<close>

datatype field = Current_position | Years_experience | Target_position | Industry

fun lookup :: "form_data \<Rightarrow> field \<Rightarrow> jsstring" where
  "lookup fd Current_position = current_position fd"
| "lookup fd Years_experience = years_experience fd"
| "lookup fd Target_position = target_position fd"
| "lookup fd Industry = industry fd"

definition requiredFields :: "field list" where
  "requiredFields = [Current_position, Years_experience, Target_position, Industry]"

text \<open>
  The loop of lines 100 to 107: the key at which it returns, \<open>None\<close> when it runs to
  its end. \<^verbatim>\<open>!formData[key]\<close> holds for the empty string only.
\<close>

fun first_missing :: "form_data \<Rightarrow> field list \<Rightarrow> field option" where
  "first_missing fd [] = None"
| "first_missing fd (key # keys) =
     (if lookup fd key = [] then Some key else first_missing fd keys)"

section \<open>The submit handler\<close>

text \<open>The condition of line 75, under which the handler returns without a request.\<close>

definition gate_blocks :: "jsstring \<Rightarrow> jsnum \<Rightarrow> bool" where
  "gate_blocks userPlan credits \<longleftrightarrow> userPlan \<noteq> premium \<and> js_le credits 0"

text \<open>
  The three parts of the \<^verbatim>\<open>try\<close> block, last first. Each returns \<open>None\<close> when it
  runs to its end, or the exception thrown and the place it came from, with the world
  at that moment.
\<close>

definition update_credits_and_ui ::
  "env \<Rightarrow> jsstring \<Rightarrow> jsnum \<Rightarrow> world \<Rightarrow> (stage \<times> js_exn) option \<times> world" where
  "update_credits_and_ui en userPlan credits w =
     (let credits' = (if userPlan \<noteq> premium then js_minus_one credits else credits);
          w1 = (if userPlan \<noteq> premium
                then setItem credits_key (number_to_string credits') w else w)
      in case credit_count (dom w1) of
           None \<Rightarrow> (Some (Unexpected, Exn (ascii ''TypeError'') (null_error_message en)), w1)
         | Some _ \<Rightarrow>
             (None,
              progress_done (announce msg_complete (showToast msg_ready Success
                (set_credit_count
                   (if userPlan = premium then infinity_sign else number_to_string credits')
                   w1)))))"

definition generate_cover_letter ::
  "env \<Rightarrow> jsstring \<Rightarrow> jsnum \<Rightarrow> form_data \<Rightarrow> world \<Rightarrow> (stage \<times> js_exn) option \<times> world" where
  "generate_cover_letter en userPlan credits fd w =
     (let w1 = emit (Fetch cover_letter_url fd) w
      in case cover_letter_reply en of
           Rejected e \<Rightarrow> (Some (CoverLetterRequest, e), w1)
         | Fulfilled coverLetterRes \<Rightarrow>
             if \<not> ok coverLetterRes then
               (Some (CoverLetterRequest, Exn (ascii ''Error'') msg_cover_letter_failed), w1)
             else
               (case blob_result coverLetterRes of
                  Inl e \<Rightarrow> (Some (CoverLetterRequest, e), w1)
                | Inr coverLetterBlob \<Rightarrow>
                    update_credits_and_ui en userPlan credits
                      (downloadBlob coverLetterBlob cover_letter_filename w1)))"

definition generate_resume ::
  "env \<Rightarrow> jsstring \<Rightarrow> jsnum \<Rightarrow> form_data \<Rightarrow> world \<Rightarrow> (stage \<times> js_exn) option \<times> world" where
  "generate_resume en userPlan credits fd w =
     (let w1 = emit (Fetch resume_url fd) w
      in case resume_reply en of
           Rejected e \<Rightarrow> (Some (ResumeRequest, e), w1)
         | Fulfilled resumeRes \<Rightarrow>
             if \<not> ok resumeRes then
               (Some (ResumeRequest, Exn (ascii ''Error'') msg_resume_failed), w1)
             else
               (case blob_result resumeRes of
                  Inl e \<Rightarrow> (Some (ResumeRequest, e), w1)
                | Inr resumeBlob \<Rightarrow>
                    generate_cover_letter en userPlan credits fd
                      (downloadBlob resumeBlob resume_filename w1)))"

text \<open>The \<^verbatim>\<open>catch\<close> block.\<close>

definition catch_block :: "js_exn \<Rightarrow> world \<Rightarrow> world" where
  "catch_block error w =
     progress_hide (announce msg_error_occurred
       (showToast (error_prefix @ error_text error) Error (emit (ConsoleError error) w)))"

text \<open>
  The listener of lines 53 to 167, run from its start to its end. The storage is taken
  to be available (\<^verbatim>\<open>getItem\<close> and \<^verbatim>\<open>setItem\<close> do not throw). The timers of
  \<^verbatim>\<open>showToast\<close> and of \<^verbatim>\<open>downloadBlob\<close> are not part of the model. The second listener
  of the form (lines 249 to 262) and the timer of line 156 come in with
  \<open>submit_event\<close> below.
\<close>

definition submit_handler :: "env \<Rightarrow> world \<Rightarrow> outcome \<times> world" where
  "submit_handler en w0 =
     (let w1 = announce msg_generating w0
      in case submit_button (dom w1) of
           None \<Rightarrow> (Uncaught, w1)
         | Some submitBtn \<Rightarrow>
             let originalBtnHTML = innerHTML submitBtn;
                 w2 = set_button True spinner_html w1;
                 (c, w3) = getItem credits_key w2;
                 credits = parseInt10 (or_default c (ascii ''1''));
                 (p, w4) = getItem plan_key w3;
                 userPlan = or_default p free
             in if gate_blocks userPlan credits then
                  (Failed CreditGate,
                   set_button False originalBtnHTML (showToast msg_no_credits Error w4))
                else
                  (case gather w4 of
                     (None, w5) \<Rightarrow> (Uncaught, w5)
                   | (Some fd, w5) \<Rightarrow>
                       (case first_missing fd requiredFields of
                          Some key \<Rightarrow>
                            (Failed Validation,
                             set_button False originalBtnHTML (showToast msg_required Error w5))
                        | None \<Rightarrow>
                            (case generate_resume en userPlan credits fd (progress_reset w5) of
                               (None, w6) \<Rightarrow> (Done, set_button False originalBtnHTML w6)
                             | (Some (stg, error), w6) \<Rightarrow>
                                 (Failed stg,
                                  set_button False originalBtnHTML (catch_block error w6))))))"

text \<open>
  The first listener of the form (lines 53 to 167) on one submit event, on a page \<open>d\<close>
  with the storage \<open>st\<close>. The second listener follows below as \<open>submit_event\<close>.
\<close>

definition submit :: "env \<Rightarrow> dom \<Rightarrow> (jsstring \<rightharpoonup> jsstring) \<Rightarrow> outcome \<times> world" where
  "submit en d st = submit_handler en \<lparr>dom = d, storage = st, trace = []\<rparr>"

text \<open>The plan and the credits as lines 73 and 74 read them from a storage.\<close>

definition read_credits :: "(jsstring \<rightharpoonup> jsstring) \<Rightarrow> jsnum" where
  "read_credits st = parseInt10 (or_default (st credits_key) (ascii ''1''))"

definition read_plan :: "(jsstring \<rightharpoonup> jsstring) \<Rightarrow> jsstring" where
  "read_plan st = or_default (st plan_key) free"

section \<open>The second listener and the whole submit event\<close>

text \<open>
  The form has a second submit listener (lines 249 to 262), registered when the three
  progress elements are in the document as the page is loaded; the model takes the page
  to have the same progress elements then as at the submit event. The listener shows
  the progress bar and starts an interval. \<open>Some progress\<close> is a running interval with
  its counter, \<open>None\<close> is no interval.
\<close>

type_synonym ticker = "nat option"

definition animation_start :: "world \<Rightarrow> ticker \<times> world" where
  "animation_start w =
     (if has_progress (dom w) then
        (Some 0,
         emit AnimationStart
           (w\<lparr>dom := (dom w)\<lparr>progress_container := Some (ascii ''block''),
                                progress_fill := Some (ascii ''0%''),
                                progress_text := Some msg_progress\<rparr>\<rparr>))
      else (None, w))"

text \<open>
  The callback of the interval (lines 255 to 260): it adds 10 to the counter and sets
  the width of the fill; from 100 on it stops the interval and sets the text.
\<close>

definition animation_tick :: "ticker \<times> world \<Rightarrow> ticker \<times> world" where
  "animation_tick tw =
     (case tw of
        (None, w) \<Rightarrow> (None, w)
      | (Some progress, w) \<Rightarrow>
          let progress' = progress + 10;
              w1 = emit (AnimationTick progress')
                     (w\<lparr>dom := (dom w)\<lparr>progress_fill :=
                        Some (number_to_string (Num (int progress')) @ ascii ''%'')\<rparr>\<rparr>)
          in if progress' \<ge> 100
             then (None, w1\<lparr>dom := (dom w1)\<lparr>progress_text := Some (ascii ''Done!'')\<rparr>\<rparr>)
             else (Some progress', w1))"

fun animation_ticks :: "nat \<Rightarrow> ticker \<times> world \<Rightarrow> ticker \<times> world" where
  "animation_ticks 0 tw = tw"
| "animation_ticks (Suc k) tw = animation_ticks k (animation_tick tw)"

text \<open>The callback of the timer of line 156, set inside the test of line 153.\<close>

definition progress_timeout :: "world \<Rightarrow> world" where
  "progress_timeout w =
     (if has_progress (dom w) then
        emit ProgressTimeout
          (w\<lparr>dom := (dom w)\<lparr>progress_container := Some (ascii ''none'')\<rparr>\<rparr>)
      else w)"

text \<open>
  The first listener is an \<^verbatim>\<open>async\<close> function: on the submit event it runs up to its
  first \<^verbatim>\<open>await\<close> (or to its return, or to an exception that leaves it), then the
  second listener runs, and the rest of the first listener runs as its promises
  settle, with callbacks of the interval in between. \<open>timing\<close> says how many
  callbacks of the interval run while the first listener waits at each \<^verbatim>\<open>await\<close>, and
  between its end and the timer of line 156.
\<close>

record timing =
  during_resume_request :: nat
  during_resume_blob :: nat
  during_cover_letter_request :: nat
  during_cover_letter_blob :: nat
  before_timeout :: nat

text \<open>
  Lines 54 to 125 of the first listener: its outcome and world when it ends there, or
  else the values it holds and the world as it waits for the resume request.
\<close>

definition submit_sync ::
  "world \<Rightarrow> (outcome \<times> world) + (jsstring \<times> jsstring \<times> jsnum \<times> form_data \<times> world)" where
  "submit_sync w0 =
     (let w1 = announce msg_generating w0
      in case submit_button (dom w1) of
           None \<Rightarrow> Inl (Uncaught, w1)
         | Some submitBtn \<Rightarrow>
             let originalBtnHTML = innerHTML submitBtn;
                 w2 = set_button True spinner_html w1;
                 (c, w3) = getItem credits_key w2;
                 credits = parseInt10 (or_default c (ascii ''1''));
                 (p, w4) = getItem plan_key w3;
                 userPlan = or_default p free
             in if gate_blocks userPlan credits then
                  Inl (Failed CreditGate,
                       set_button False originalBtnHTML (showToast msg_no_credits Error w4))
                else
                  (case gather w4 of
                     (None, w5) \<Rightarrow> Inl (Uncaught, w5)
                   | (Some fd, w5) \<Rightarrow>
                       (case first_missing fd requiredFields of
                          Some key \<Rightarrow>
                            Inl (Failed Validation,
                                 set_button False originalBtnHTML
                                   (showToast msg_required Error w5))
                        | None \<Rightarrow>
                            Inr (originalBtnHTML, userPlan, credits, fd,
                                 emit (Fetch resume_url fd) (progress_reset w5)))))"

text \<open>The \<^verbatim>\<open>catch\<close> and \<^verbatim>\<open>finally\<close> blocks after an exception, and the end of a run.\<close>

definition thrown :: "jsstring \<Rightarrow> stage \<Rightarrow> js_exn \<Rightarrow> ticker \<times> world \<Rightarrow> outcome \<times> ticker \<times> world" where
  "thrown originalBtnHTML stg error tw =
     (Failed stg, fst tw, set_button False originalBtnHTML (catch_block error (snd tw)))"

text \<open>Lines 121 to 166 from the moment the resume request has been issued.\<close>

definition submit_rest ::
  "timing \<Rightarrow> env \<Rightarrow> jsstring \<Rightarrow> jsstring \<Rightarrow> jsnum \<Rightarrow> form_data \<Rightarrow> ticker \<times> world
     \<Rightarrow> outcome \<times> ticker \<times> world" where
  "submit_rest tm en originalBtnHTML userPlan credits fd tw =
     (let tw1 = animation_ticks (during_resume_request tm) tw
      in case resume_reply en of
           Rejected e \<Rightarrow> thrown originalBtnHTML ResumeRequest e tw1
         | Fulfilled resumeRes \<Rightarrow>
             if \<not> ok resumeRes then
               thrown originalBtnHTML ResumeRequest (Exn (ascii ''Error'') msg_resume_failed) tw1
             else
               let tw2 = animation_ticks (during_resume_blob tm) tw1
               in (case blob_result resumeRes of
                     Inl e \<Rightarrow> thrown originalBtnHTML ResumeRequest e tw2
                   | Inr resumeBlob \<Rightarrow>
                       let tw3 = animation_ticks (during_cover_letter_request tm)
                                   (fst tw2,
                                    emit (Fetch cover_letter_url fd)
                                      (downloadBlob resumeBlob resume_filename (snd tw2)))
                       in (case cover_letter_reply en of
                             Rejected e \<Rightarrow> thrown originalBtnHTML CoverLetterRequest e tw3
                           | Fulfilled coverLetterRes \<Rightarrow>
                               if \<not> ok coverLetterRes then
                                 thrown originalBtnHTML CoverLetterRequest
                                   (Exn (ascii ''Error'') msg_cover_letter_failed) tw3
                               else
                                 let tw4 = animation_ticks (during_cover_letter_blob tm) tw3
                                 in (case blob_result coverLetterRes of
                                       Inl e \<Rightarrow>
                                         thrown originalBtnHTML CoverLetterRequest e tw4
                                     | Inr coverLetterBlob \<Rightarrow>
                                         (case update_credits_and_ui en userPlan credits
                                                 (downloadBlob coverLetterBlob
                                                    cover_letter_filename (snd tw4)) of
                                            (None, w) \<Rightarrow>
                                              (Done, fst tw4,
                                               set_button False originalBtnHTML w)
                                          | (Some (stg, error), w) \<Rightarrow>
                                              thrown originalBtnHTML stg error
                                                (fst tw4, w))))))"

text \<open>
  One submit event on a page \<open>d\<close> with the storage \<open>st\<close>, with both listeners, until the
  interval has stopped and the timer of line 156 has run. The interval stops itself
  after ten callbacks.
\<close>

definition submit_event ::
  "timing \<Rightarrow> env \<Rightarrow> dom \<Rightarrow> (jsstring \<rightharpoonup> jsstring) \<Rightarrow> outcome \<times> world" where
  "submit_event tm en d st =
     (case submit_sync \<lparr>dom = d, storage = st, trace = []\<rparr> of
        Inl (out, w) \<Rightarrow> (out, snd (animation_ticks 10 (animation_start w)))
      | Inr (originalBtnHTML, userPlan, credits, fd, w) \<Rightarrow>
          (case submit_rest tm en originalBtnHTML userPlan credits fd (animation_start w) of
             (out, tw) \<Rightarrow>
               if out = Done then
                 (let tw' = animation_ticks (before_timeout tm) tw
                  in (out, snd (animation_ticks 10 (fst tw', progress_timeout (snd tw')))))
               else (out, snd (animation_ticks 10 tw))))"

section \<open>Observations on a run\<close>

text \<open>Kinds of events in the trace of a run.\<close>

definition is_request_to :: "jsstring \<Rightarrow> event \<Rightarrow> bool" where
  "is_request_to url e = (case e of Fetch u _ \<Rightarrow> u = url | _ \<Rightarrow> False)"

definition is_request :: "event \<Rightarrow> bool" where
  "is_request e = (case e of Fetch _ _ \<Rightarrow> True | _ \<Rightarrow> False)"

definition is_download :: "event \<Rightarrow> bool" where
  "is_download e = (case e of Download _ _ \<Rightarrow> True | _ \<Rightarrow> False)"

definition is_storage_write :: "event \<Rightarrow> bool" where
  "is_storage_write e = (case e of StorageSet _ _ \<Rightarrow> True | _ \<Rightarrow> False)"

definition is_storage_read :: "event \<Rightarrow> bool" where
  "is_storage_read e = (case e of StorageGet _ \<Rightarrow> True | _ \<Rightarrow> False)"

definition is_toast :: "event \<Rightarrow> bool" where
  "is_toast e = (case e of Toast _ _ \<Rightarrow> True | _ \<Rightarrow> False)"

definition is_download_or_write :: "event \<Rightarrow> bool" where
  "is_download_or_write e \<longleftrightarrow> is_download e \<or> is_storage_write e"

text \<open>
  The events that are not of the run of the first listener: those of the second
  listener and of the timer of line 156.
\<close>

definition is_later :: "event \<Rightarrow> bool" where
  "is_later e =
     (case e of AnimationStart \<Rightarrow> True | AnimationTick _ \<Rightarrow> True | ProgressTimeout \<Rightarrow> True
      | _ \<Rightarrow> False)"

definition is_request_or_download :: "event \<Rightarrow> bool" where
  "is_request_or_download e \<longleftrightarrow> is_request e \<or> is_download e"

text \<open>A request fails when \<^verbatim>\<open>fetch\<close> rejects or the response is not \<^verbatim>\<open>ok\<close>.\<close>

definition request_failed :: "fetch_result \<Rightarrow> bool" where
  "request_failed r = (case r of Rejected _ \<Rightarrow> True | Fulfilled res \<Rightarrow> \<not> ok res)"

text \<open>The artifact a reply delivers: the response is \<^verbatim>\<open>ok\<close> and its blob can be read.\<close>

definition retrieved :: "fetch_result \<Rightarrow> blob option" where
  "retrieved r =
     (case r of
        Rejected _ \<Rightarrow> None
      | Fulfilled res \<Rightarrow>
          if ok res then (case blob_result res of Inl _ \<Rightarrow> None | Inr b \<Rightarrow> Some b)
          else None)"

text \<open>
  The run gets as far as the first request: the form has its submit button, the gate
  lets the submission through, every skill tag has a child and no required field is
  empty (lines 67 to 107).
\<close>

definition reaches_requests :: "dom \<Rightarrow> (jsstring \<rightharpoonup> jsstring) \<Rightarrow> bool" where
  "reaches_requests d st \<longleftrightarrow>
     submit_button d \<noteq> None \<and> \<not> gate_blocks (read_plan st) (read_credits st)
     \<and> (case formData d of None \<Rightarrow> False
         | Some fd \<Rightarrow> first_missing fd requiredFields = None)"

text \<open>
  What \<^verbatim>\<open>await fetch(...)\<close>, the \<^verbatim>\<open>ok\<close> test and \<^verbatim>\<open>await res.blob()\<close> give
  together: the blob, or the exception thrown.
\<close>

definition reply_blob :: "jsstring \<Rightarrow> fetch_result \<Rightarrow> js_exn + blob" where
  "reply_blob failure r =
     (case r of
        Rejected e \<Rightarrow> Inl e
      | Fulfilled res \<Rightarrow> if \<not> ok res then Inl (Exn (ascii ''Error'') failure) else blob_result res)"

definition resume_blob :: "env \<Rightarrow> js_exn + blob" where
  "resume_blob en = reply_blob msg_resume_failed (resume_reply en)"

definition cover_letter_blob :: "env \<Rightarrow> js_exn + blob" where
  "cover_letter_blob en = reply_blob msg_cover_letter_failed (cover_letter_reply en)"

text \<open>The world at the points of a run: after line 74, after each request, after line 146.\<close>

definition started :: "dom \<Rightarrow> (jsstring \<rightharpoonup> jsstring) \<Rightarrow> world" where
  "started d st =
     emit (StorageGet plan_key) (emit (StorageGet credits_key)
       (set_button True spinner_html
          (announce msg_generating \<lparr>dom = d, storage = st, trace = []\<rparr>)))"

definition resume_requested :: "dom \<Rightarrow> (jsstring \<rightharpoonup> jsstring) \<Rightarrow> form_data \<Rightarrow> world" where
  "resume_requested d st fd = emit (Fetch resume_url fd) (progress_reset (started d st))"

definition cover_letter_requested ::
  "dom \<Rightarrow> (jsstring \<rightharpoonup> jsstring) \<Rightarrow> form_data \<Rightarrow> blob \<Rightarrow> world" where
  "cover_letter_requested d st fd rb =
     emit (Fetch cover_letter_url fd) (downloadBlob rb resume_filename (resume_requested d st fd))"

definition new_credits :: "(jsstring \<rightharpoonup> jsstring) \<Rightarrow> jsstring" where
  "new_credits st = number_to_string (js_minus_one (read_credits st))"

definition credits_updated ::
  "dom \<Rightarrow> (jsstring \<rightharpoonup> jsstring) \<Rightarrow> form_data \<Rightarrow> blob \<Rightarrow> blob \<Rightarrow> world" where
  "credits_updated d st fd rb cb =
     (let w = downloadBlob cb cover_letter_filename (cover_letter_requested d st fd rb)
      in if read_plan st \<noteq> premium then setItem credits_key (new_credits st) w else w)"

definition shown_credits :: "(jsstring \<rightharpoonup> jsstring) \<Rightarrow> jsstring" where
  "shown_credits st = (if read_plan st = premium then infinity_sign else new_credits st)"

text \<open>
  Two worlds agree when they differ at most in what the second listener and the timer
  of line 156 write: the display, the width and the text of progress elements that are
  there in both, and the events of these two in the trace.
\<close>

definition agree :: "world \<Rightarrow> world \<Rightarrow> bool" where
  "agree w w' \<longleftrightarrow>
     storage w = storage w'
     \<and> filter (\<lambda>e. \<not> is_later e) (trace w) = filter (\<lambda>e. \<not> is_later e) (trace w')
     \<and> field_value (dom w) = field_value (dom w') \<and> skill_tags (dom w) = skill_tags (dom w')
     \<and> status_text (dom w) = status_text (dom w')
     \<and> submit_button (dom w) = submit_button (dom w')
     \<and> toast (dom w) = toast (dom w') \<and> credit_count (dom w) = credit_count (dom w')
     \<and> (progress_container (dom w) = None) = (progress_container (dom w') = None)
     \<and> (progress_fill (dom w) = None) = (progress_fill (dom w') = None)
     \<and> (progress_text (dom w) = None) = (progress_text (dom w') = None)"

text \<open>
  The state of the interval and of the page it animates: while the interval runs its
  counter is a multiple of 10 below 100; once it has stopped, the fill is at 100% and
  the text is \<^verbatim>\<open>Done!\<close>, and the callback that did it is in the trace.
\<close>

definition ticking :: "ticker \<times> world \<Rightarrow> bool" where
  "ticking tw =
     (case fst tw of
        Some progress \<Rightarrow> progress < 100 \<and> progress mod 10 = 0
      | None \<Rightarrow>
          progress_fill (dom (snd tw)) = Some (ascii ''100%'')
          \<and> progress_text (dom (snd tw)) = Some (ascii ''Done!'')
          \<and> AnimationTick 100 \<in> set (trace (snd tw)))"

text \<open>
  The world of the whole submit event follows the world of the first listener alone:
  the two agree, and an interval runs only on a page with the three progress elements.
\<close>

definition follows :: "ticker \<times> world \<Rightarrow> world \<Rightarrow> bool" where
  "follows tw w \<longleftrightarrow> agree (snd tw) w \<and> (fst tw \<noteq> None \<longrightarrow> has_progress (dom (snd tw)))"

text \<open>Several submit events in a row, each on its own page and with its own replies.\<close>

fun submit_all :: "(env \<times> dom) list \<Rightarrow> (jsstring \<rightharpoonup> jsstring) \<Rightarrow> (jsstring \<rightharpoonup> jsstring)" where
  "submit_all [] st = st"
| "submit_all ((en, d) # rs) st = submit_all rs (storage (snd (submit en d st)))"

text \<open>
  A message names a field when it contains, in any letter case, one of the words of
  the field's name.
\<close>

fun is_prefix :: "jsstring \<Rightarrow> jsstring \<Rightarrow> bool" where
  "is_prefix [] ys = True"
| "is_prefix (x # xs) [] = False"
| "is_prefix (x # xs) (y # ys) = (x = y \<and> is_prefix xs ys)"

fun contains :: "jsstring \<Rightarrow> jsstring \<Rightarrow> bool" where
  "contains [] w = (w = [])"
| "contains (c # cs) w = (is_prefix w (c # cs) \<or> contains cs w)"

definition to_lower :: "jschar \<Rightarrow> jschar" where
  "to_lower c = (if 0x41 \<le> c \<and> c \<le> 0x5A then c + 0x20 else c)"

fun field_words :: "field \<Rightarrow> jsstring list" where
  "field_words Current_position = [ascii ''current'', ascii ''position'']"
| "field_words Years_experience = [ascii ''years'', ascii ''experience'']"
| "field_words Target_position = [ascii ''target'', ascii ''position'']"
| "field_words Industry = [ascii ''industry'']"

definition names_field :: "jsstring \<Rightarrow> field \<Rightarrow> bool" where
  "names_field message f = list_ex (contains (map to_lower message)) (field_words f)"

section \<open>Example pages, storages and replies\<close>

definition page_filled :: dom where
  "page_filled =
     \<lparr>field_value = [ascii ''currentPosition'' \<mapsto> ascii ''Developer'',
                      ascii ''yearsExperience'' \<mapsto> ascii ''3'',
                      ascii ''targetPosition'' \<mapsto> ascii '' Lead '',
                      ascii ''industry'' \<mapsto> ascii ''IT''],
      skill_tags = [Some (ascii ''Go '')],
      status_text = None,
      submit_button = Some \<lparr>disabled = False, innerHTML = ascii ''Generate''\<rparr>,
      toast = None,
      progress_container = Some (ascii ''none''),
      progress_fill = Some (ascii ''0%''),
      progress_text = Some [],
      credit_count = Some (ascii ''1'')\<rparr>"

definition record_filled :: form_data where
  "record_filled =
     \<lparr>current_position = ascii ''Developer'', years_experience = ascii ''3'',
      education = [], skills = [ascii ''Go''], experience = [],
      target_position = ascii ''Lead'', achievements = [], projects = [],
      industry = ascii ''IT'', tone = [], job_description = []\<rparr>"

text \<open>The same page with an industry of two spaces, and without \<^verbatim>\<open>#credit-count\<close>.\<close>

definition page_no_industry :: dom where
  "page_no_industry =
     page_filled\<lparr>field_value := (field_value page_filled)(ascii ''industry'' \<mapsto> ascii ''  '')\<rparr>"

definition page_no_credit_count :: dom where
  "page_no_credit_count = page_filled\<lparr>credit_count := None\<rparr>"

definition storage_one_credit :: "jsstring \<rightharpoonup> jsstring" where
  "storage_one_credit = [credits_key \<mapsto> ascii ''1'', plan_key \<mapsto> free]"

definition storage_no_credit :: "jsstring \<rightharpoonup> jsstring" where
  "storage_no_credit = [credits_key \<mapsto> ascii ''0'', plan_key \<mapsto> free]"

definition storage_garbled :: "jsstring \<rightharpoonup> jsstring" where
  "storage_garbled = [credits_key \<mapsto> ascii ''abc'', plan_key \<mapsto> free]"

definition storage_gold :: "jsstring \<rightharpoonup> jsstring" where
  "storage_gold = [credits_key \<mapsto> ascii ''1'', plan_key \<mapsto> ascii ''gold'']"

definition storage_premium :: "jsstring \<rightharpoonup> jsstring" where
  "storage_premium = [credits_key \<mapsto> ascii ''0'', plan_key \<mapsto> premium]"

definition env_ok :: env where
  "env_ok =
     \<lparr>resume_reply = Fulfilled \<lparr>ok = True, blob_result = Inr [1]\<rparr>,
      cover_letter_reply = Fulfilled \<lparr>ok = True, blob_result = Inr [2]\<rparr>,
      null_error_message = ascii ''null has no properties''\<rparr>"

definition env_resume_500 :: env where
  "env_resume_500 = env_ok\<lparr>resume_reply := Fulfilled \<lparr>ok = False, blob_result = Inr []\<rparr>\<rparr>"

text \<open>No callback of the interval runs before the first listener has ended.\<close>

definition timing_late :: timing where
  "timing_late =
     \<lparr>during_resume_request = 0, during_resume_blob = 0, during_cover_letter_request = 0,
      during_cover_letter_blob = 0, before_timeout = 0\<rparr>"

text \<open>Callbacks of the interval run at every \<^verbatim>\<open>await\<close> of the first listener.\<close>

definition timing_spread :: timing where
  "timing_spread =
     \<lparr>during_resume_request = 3, during_resume_blob = 1, during_cover_letter_request = 4,
      during_cover_letter_blob = 1, before_timeout = 8\<rparr>"

definition env_cover_letter_500 :: env where
  "env_cover_letter_500 =
     env_ok\<lparr>cover_letter_reply := Fulfilled \<lparr>ok = False, blob_result = Inr []\<rparr>\<rparr>"

section \<open>Parsing and printing numbers\<close>

lemma ascii_nonempty [simp]: "ascii (c # cs) \<noteq> []"
  by (simp add: ascii_def)

lemma unat_digit:
  assumes "d < 10"
  shows "unat (48 + of_nat d :: jschar) = 48 + d"
proof -
  have "unat (of_nat (48 + d) :: jschar) = (48 + d) mod 2 ^ LENGTH(16)"
    by (rule unat_of_nat)
  with assms show ?thesis by simp
qed

lemma is_digit_of_nat: "d < 10 \<Longrightarrow> is_digit (48 + of_nat d)"
  unfolding is_digit_def word_le_nat_alt by (simp add: unat_digit)

lemma digit_value_of_nat: "d < 10 \<Longrightarrow> digit_value (48 + of_nat d) = int d"
  unfolding digit_value_def uint_nat by (simp add: unat_digit)

lemma digit_not_white_space: "is_digit c \<Longrightarrow> \<not> is_white_space c"
  unfolding is_digit_def is_white_space_def word_le_nat_alt
  by (auto simp: word_unat_eq_iff)

lemma digit_not_sign: "is_digit c \<Longrightarrow> c \<noteq> 0x2B \<and> c \<noteq> 0x2D"
  unfolding is_digit_def word_le_nat_alt by auto

lemma digits_of_nat_digits: "\<forall>c \<in> set (digits_of_nat n). is_digit c"
  by (induction n rule: digits_of_nat.induct)
    (subst digits_of_nat.simps, simp add: is_digit_of_nat)

lemma digits_of_nat_nonempty: "digits_of_nat n \<noteq> []"
  by (subst digits_of_nat.simps) simp

lemma digits_value_snoc: "digits_value (ds @ [c]) = 10 * digits_value ds + digit_value c"
  by (simp add: digits_value_def)

lemma digits_value_digits_of_nat: "digits_value (digits_of_nat n) = int n"
proof (induction n rule: digits_of_nat.induct)
  case (1 n)
  show ?case
  proof (cases "n < 10")
    case True
    then show ?thesis
      by (subst digits_of_nat.simps) (simp add: digits_value_def digit_value_of_nat)
  next
    case False
    with 1 have "digits_value (digits_of_nat (n div 10)) = int (n div 10)"
      by simp
    with False show ?thesis
      by (subst digits_of_nat.simps)
        (simp add: digits_value_snoc digit_value_of_nat zdiv_int zmod_int)
  qed
qed

lemma takeWhile_all: "\<forall>x \<in> set xs. P x \<Longrightarrow> takeWhile P xs = xs"
  by (simp add: takeWhile_eq_all_conv)

lemma parseInt10_digits:
  assumes "ds \<noteq> []" "\<forall>c \<in> set ds. is_digit c"
  shows "parseInt10 ds = Num (digits_value ds)"
proof -
  from assms obtain c cs where ds: "ds = c # cs" and c: "is_digit c"
    by (cases ds) auto
  have cs: "takeWhile is_digit cs = cs"
    using assms(2) by (intro takeWhile_all) (simp add: ds)
  have ws: "\<not> is_white_space c"
    using c by (rule digit_not_white_space)
  show ?thesis
    using digit_not_sign [OF c] c ws
    by (simp add: parseInt10_def Let_def ds cs)
qed

lemma parseInt10_minus_digits:
  assumes "ds \<noteq> []" "\<forall>c \<in> set ds. is_digit c"
  shows "parseInt10 (0x2D # ds) = Num (- digits_value ds)"
proof -
  have tw: "takeWhile is_digit ds = ds"
    using assms(2) by (rule takeWhile_all)
  have "\<not> is_white_space 0x2D"
    by (simp add: is_white_space_def)
  then have "dropWhile is_white_space (0x2D # ds) = 0x2D # ds"
    by simp
  then show ?thesis
    using assms(1) by (simp add: parseInt10_def Let_def tw)
qed

lemma parseInt10_number_to_string: "parseInt10 (number_to_string (Num n)) = Num n"
  by (simp add: number_to_string_def parseInt10_digits parseInt10_minus_digits
        digits_of_nat_nonempty digits_of_nat_digits digits_value_digits_of_nat)

lemma number_to_string_nonempty: "number_to_string x \<noteq> []"
  by (cases x) (simp_all add: number_to_string_def digits_of_nat_nonempty ascii_def)

lemma parseInt10_NaN: "parseInt10 (ascii ''NaN'') = NaN"
  by (simp add: parseInt10_def ascii_def is_white_space_def is_digit_def)

lemma parseInt10_examples:
  "parseInt10 (ascii ''1'') = Num 1" "parseInt10 (ascii ''0'') = Num 0"
  "parseInt10 (ascii ''abc'') = NaN"
  by (simp_all add: parseInt10_def ascii_def is_white_space_def is_digit_def digits_value_def
        digit_value_def)

lemma number_to_string_examples:
  "number_to_string (Num 0) = ascii ''0''" "number_to_string NaN = ascii ''NaN''"
  by (simp_all add: number_to_string_def digits_of_nat.simps ascii_def)

lemma gate_blocks_iff:
  "gate_blocks userPlan credits \<longleftrightarrow> userPlan \<noteq> premium \<and> (\<exists>n. credits = Num n \<and> n \<le> 0)"
  by (cases credits) (simp_all add: gate_blocks_def js_le_def)

section \<open>Constants that differ\<close>

lemma keys_distinct [simp]: "credits_key \<noteq> plan_key" "plan_key \<noteq> credits_key"
  by (simp_all add: credits_key_def plan_key_def ascii_def)

lemma plans_distinct [simp]: "free \<noteq> premium" "premium \<noteq> free"
  by (simp_all add: free_def premium_def ascii_def)

lemma urls_distinct [simp]:
  "resume_url \<noteq> cover_letter_url" "cover_letter_url \<noteq> resume_url"
  by (simp_all add: resume_url_def cover_letter_url_def ascii_def)

lemma messages_distinct [simp]:
  "msg_complete \<noteq> msg_generating" "msg_complete \<noteq> msg_error_occurred"
  "msg_generating \<noteq> msg_complete" "msg_error_occurred \<noteq> msg_complete"
  by (simp_all add: msg_complete_def msg_generating_def msg_error_occurred_def ascii_def)

lemma gold_is_no_plan: "ascii ''gold'' \<noteq> free" "ascii ''gold'' \<noteq> premium"
  by (simp_all add: free_def premium_def ascii_def)

lemma msg_required_names_no_field: "\<not> names_field msg_required f"
  by (cases f) (simp_all add: names_field_def msg_required_def ascii_def to_lower_def)

section \<open>Reading the storage\<close>

lemma read_credits_written:
  "read_credits (st(credits_key \<mapsto> number_to_string (Num n))) = Num n"
  by (simp add: read_credits_def or_default_def number_to_string_nonempty
        parseInt10_number_to_string)

lemma read_credits_NaN_written:
  "read_credits (st(credits_key \<mapsto> ascii ''NaN'')) = NaN"
  by (simp add: read_credits_def or_default_def parseInt10_NaN)

lemma read_plan_credits_written [simp]:
  "read_plan (st(credits_key \<mapsto> v)) = read_plan st"
  by (simp add: read_plan_def)

section \<open>The effect of each helper\<close>

lemma dom_simps [simp]:
  "dom (emit e w) = dom w"
  "dom (showToast m t w) = (dom w)\<lparr>toast := Some (m, t)\<rparr>"
  "dom (downloadBlob b f w) = dom w"
  "dom (announce a w) = (dom w)\<lparr>status_text := Some a\<rparr>"
  "dom (set_button c h w) = (dom w)\<lparr>submit_button := Some \<lparr>disabled = c, innerHTML = h\<rparr>\<rparr>"
  "dom (set_credit_count a w) = (dom w)\<lparr>credit_count := Some a\<rparr>"
  "dom (setItem k v w) = dom w"
  by (simp_all add: emit_def showToast_def downloadBlob_def announce_def set_button_def
        set_credit_count_def setItem_def)

lemma dom_started [simp]:
  "dom (started d st) =
     d\<lparr>status_text := Some msg_generating,
       submit_button := Some \<lparr>disabled = True, innerHTML = spinner_html\<rparr>\<rparr>"
  by (simp add: started_def)

lemma formData_frame:
  "field_value d' = field_value d \<Longrightarrow> skill_tags d' = skill_tags d \<Longrightarrow> formData d' = formData d"
  by (simp add: formData_def getVal_def split: option.split)

lemma formData_update [simp]:
  "formData (d\<lparr>status_text := a\<rparr>) = formData d"
  "formData (d\<lparr>submit_button := b\<rparr>) = formData d"
  "formData (d\<lparr>toast := c\<rparr>) = formData d"
  by (rule formData_frame; simp)+

lemma storage_simps [simp]:
  "storage (emit e w) = storage w"
  "storage (showToast m t w) = storage w"
  "storage (downloadBlob b f w) = storage w"
  "storage (announce a w) = storage w"
  "storage (set_button c h w) = storage w"
  "storage (progress_reset w) = storage w"
  "storage (progress_done w) = storage w"
  "storage (progress_hide w) = storage w"
  "storage (set_credit_count a w) = storage w"
  "storage (catch_block x w) = storage w"
  "storage (setItem k v w) = (storage w)(k \<mapsto> v)"
  by (simp_all add: emit_def showToast_def downloadBlob_def announce_def set_button_def
        progress_reset_def progress_done_def progress_hide_def set_credit_count_def
        catch_block_def setItem_def)

lemma storage_started [simp]: "storage (started d st) = st"
  by (simp add: started_def)

lemma trace_simps [simp]:
  "trace (emit e w) = trace w @ [e]"
  "trace (showToast m t w) = trace w @ [Toast m t]"
  "trace (downloadBlob b f w) = trace w @ [Download b f]"
  "trace (announce a w) = trace w @ [Announce a]"
  "trace (set_button c h w) = trace w @ [SetBusy c]"
  "trace (progress_reset w) = trace w @ (if has_progress (dom w) then [ProgressReset] else [])"
  "trace (progress_done w) = trace w @ (if has_progress (dom w) then [ProgressDone] else [])"
  "trace (progress_hide w) =
     trace w @ (if progress_container (dom w) \<noteq> None then [ProgressHide] else [])"
  "trace (set_credit_count a w) = trace w @ [CreditCount a]"
  "trace (setItem k v w) = trace w @ [StorageSet k v]"
  by (simp_all add: emit_def showToast_def downloadBlob_def announce_def set_button_def
        progress_reset_def progress_done_def progress_hide_def set_credit_count_def
        setItem_def)

lemma trace_started [simp]:
  "trace (started d st) =
     [Announce msg_generating, SetBusy True, StorageGet credits_key, StorageGet plan_key]"
  by (simp add: started_def)

lemma dom_progress [simp]:
  "dom (progress_reset w) =
     (if has_progress (dom w)
      then (dom w)\<lparr>progress_container := Some (ascii ''block''),
                    progress_fill := Some (ascii ''0%''), progress_text := Some msg_progress\<rparr>
      else dom w)"
  "dom (progress_done w) =
     (if has_progress (dom w)
      then (dom w)\<lparr>progress_fill := Some (ascii ''100%''), progress_text := Some (ascii ''Done!'')\<rparr>
      else dom w)"
  "dom (progress_hide w) =
     (if progress_container (dom w) \<noteq> None
      then (dom w)\<lparr>progress_container := Some (ascii ''none'')\<rparr> else dom w)"
  by (simp_all add: progress_reset_def progress_done_def progress_hide_def)

lemma trace_catch_block [simp]:
  "trace (catch_block e w) =
     trace w @ [ConsoleError e, Toast (error_prefix @ error_text e) Error,
                Announce msg_error_occurred]
       @ (if progress_container (dom w) \<noteq> None then [ProgressHide] else [])"
  by (simp add: catch_block_def)

lemma dom_catch_block:
  "toast (dom (catch_block e w)) = Some (error_prefix @ error_text e, Error)"
  "status_text (dom (catch_block e w)) = Some msg_error_occurred"
  by (simp_all add: catch_block_def)

lemma trace_requested [simp]:
  "trace (resume_requested d st fd) =
     trace (started d st) @ (if has_progress d then [ProgressReset] else [])
       @ [Fetch resume_url fd]"
  "trace (cover_letter_requested d st fd rb) =
     trace (resume_requested d st fd)
       @ [Download rb resume_filename, Fetch cover_letter_url fd]"
  "trace (credits_updated d st fd rb cb) =
     trace (cover_letter_requested d st fd rb) @ [Download cb cover_letter_filename]
       @ (if read_plan st \<noteq> premium then [StorageSet credits_key (new_credits st)] else [])"
  by (simp_all add: resume_requested_def cover_letter_requested_def credits_updated_def
        has_progress_def Let_def)

lemma storage_requested [simp]:
  "storage (resume_requested d st fd) = st"
  "storage (cover_letter_requested d st fd rb) = st"
  "storage (credits_updated d st fd rb cb) =
     (if read_plan st \<noteq> premium then st(credits_key \<mapsto> new_credits st) else st)"
  by (simp_all add: resume_requested_def cover_letter_requested_def credits_updated_def Let_def)

lemma credit_count_requested [simp]:
  "credit_count (dom (resume_requested d st fd)) = credit_count d"
  "credit_count (dom (cover_letter_requested d st fd rb)) = credit_count d"
  by (simp_all add: cover_letter_requested_def resume_requested_def)

lemma credit_count_credits_updated [simp]:
  "credit_count (dom (credits_updated d st fd rb cb)) = credit_count d"
  by (simp add: credits_updated_def Let_def)

lemma progress_container_kept [simp]:
  "progress_container (dom (started d st)) = progress_container d"
  "(progress_container (dom (resume_requested d st fd)) = None) = (progress_container d = None)"
  "(progress_container (dom (cover_letter_requested d st fd rb)) = None)
     = (progress_container d = None)"
  "(progress_container (dom (credits_updated d st fd rb cb)) = None)
     = (progress_container d = None)"
  by (auto simp: resume_requested_def cover_letter_requested_def credits_updated_def Let_def
        has_progress_def)

lemma event_kind_simps [simp]:
  "is_request_to u (Fetch v fd) \<longleftrightarrow> v = u"
  "\<not> is_request_to u (Announce a)" "\<not> is_request_to u (SetBusy c)"
  "\<not> is_request_to u (StorageGet k)" "\<not> is_request_to u (StorageSet k s)"
  "\<not> is_request_to u (Toast m t)" "\<not> is_request_to u (Download b f)"
  "\<not> is_request_to u ProgressReset" "\<not> is_request_to u ProgressDone"
  "\<not> is_request_to u ProgressHide" "\<not> is_request_to u (CreditCount a)"
  "\<not> is_request_to u (ConsoleError x)"
  "is_request (Fetch v fd)"
  "\<not> is_request (Announce a)" "\<not> is_request (SetBusy c)"
  "\<not> is_request (StorageGet k)" "\<not> is_request (StorageSet k s)"
  "\<not> is_request (Toast m t)" "\<not> is_request (Download b f)"
  "\<not> is_request ProgressReset" "\<not> is_request ProgressDone"
  "\<not> is_request ProgressHide" "\<not> is_request (CreditCount a)"
  "\<not> is_request (ConsoleError x)"
  "is_download (Download b f)"
  "\<not> is_download (Announce a)" "\<not> is_download (SetBusy c)"
  "\<not> is_download (StorageGet k)" "\<not> is_download (StorageSet k s)"
  "\<not> is_download (Toast m t)" "\<not> is_download (Fetch v fd)"
  "\<not> is_download ProgressReset" "\<not> is_download ProgressDone"
  "\<not> is_download ProgressHide" "\<not> is_download (CreditCount a)"
  "\<not> is_download (ConsoleError x)"
  "is_storage_write (StorageSet k s)"
  "\<not> is_storage_write (Announce a)" "\<not> is_storage_write (SetBusy c)"
  "\<not> is_storage_write (StorageGet k)" "\<not> is_storage_write (Download b f)"
  "\<not> is_storage_write (Toast m t)" "\<not> is_storage_write (Fetch v fd)"
  "\<not> is_storage_write ProgressReset" "\<not> is_storage_write ProgressDone"
  "\<not> is_storage_write ProgressHide" "\<not> is_storage_write (CreditCount a)"
  "\<not> is_storage_write (ConsoleError x)"
  "is_storage_read (StorageGet k)"
  "\<not> is_storage_read (Announce a)" "\<not> is_storage_read (SetBusy c)"
  "\<not> is_storage_read (StorageSet k s)" "\<not> is_storage_read (Download b f)"
  "\<not> is_storage_read (Toast m t)" "\<not> is_storage_read (Fetch v fd)"
  "\<not> is_storage_read ProgressReset" "\<not> is_storage_read ProgressDone"
  "\<not> is_storage_read ProgressHide" "\<not> is_storage_read (CreditCount a)"
  "\<not> is_storage_read (ConsoleError x)"
  "is_toast (Toast m t)"
  "\<not> is_toast (Announce a)" "\<not> is_toast (SetBusy c)"
  "\<not> is_toast (StorageSet k s)" "\<not> is_toast (Download b f)"
  "\<not> is_toast (StorageGet k)" "\<not> is_toast (Fetch v fd)"
  "\<not> is_toast ProgressReset" "\<not> is_toast ProgressDone"
  "\<not> is_toast ProgressHide" "\<not> is_toast (CreditCount a)"
  "\<not> is_toast (ConsoleError x)"
  by (simp_all add: is_request_to_def is_request_def is_download_def is_storage_write_def
        is_storage_read_def is_toast_def)

section \<open>The replies\<close>

lemma request_failed_blob:
  "request_failed r \<Longrightarrow> \<exists>e. reply_blob m r = Inl e"
  by (auto simp: request_failed_def reply_blob_def split: fetch_result.splits)

lemma retrieved_blob: "retrieved r = Some b \<longleftrightarrow> reply_blob m r = Inr b"
  by (auto simp: retrieved_def reply_blob_def split: fetch_result.splits sum.splits)

lemma blob_retrieved:
  "resume_blob en = Inr rb \<longleftrightarrow> retrieved (resume_reply en) = Some rb"
  "cover_letter_blob en = Inr cb \<longleftrightarrow> retrieved (cover_letter_reply en) = Some cb"
  using retrieved_blob [of "resume_reply en" rb msg_resume_failed]
    retrieved_blob [of "cover_letter_reply en" cb msg_cover_letter_failed]
  by (simp_all add: resume_blob_def cover_letter_blob_def)

lemma blob_not_retrieved:
  "resume_blob en = Inl e \<Longrightarrow> retrieved (resume_reply en) = None"
  "cover_letter_blob en = Inl e \<Longrightarrow> retrieved (cover_letter_reply en) = None"
  by (auto simp: resume_blob_def cover_letter_blob_def reply_blob_def retrieved_def
        split: fetch_result.splits sum.splits if_splits)

section \<open>The paths through the handler\<close>

lemma submit_unfold:
  "submit en d st =
     (case submit_button d of
        None \<Rightarrow> (Uncaught, announce msg_generating \<lparr>dom = d, storage = st, trace = []\<rparr>)
      | Some b \<Rightarrow>
          if gate_blocks (read_plan st) (read_credits st) then
            (Failed CreditGate,
             set_button False (innerHTML b) (showToast msg_no_credits Error (started d st)))
          else
            (case formData d of
               None \<Rightarrow> (Uncaught, started d st)
             | Some fd \<Rightarrow>
                 (case first_missing fd requiredFields of
                    Some key \<Rightarrow>
                      (Failed Validation,
                       set_button False (innerHTML b)
                         (showToast msg_required Error (started d st)))
                  | None \<Rightarrow>
                      (case generate_resume en (read_plan st) (read_credits st) fd
                              (progress_reset (started d st)) of
                         (None, w) \<Rightarrow> (Done, set_button False (innerHTML b) w)
                       | (Some (stg, error), w) \<Rightarrow>
                           (Failed stg,
                            set_button False (innerHTML b) (catch_block error w))))))"
proof (cases "submit_button d")
  case None
  then show ?thesis
    by (simp add: submit_def submit_handler_def)
next
  case (Some b)
  then show ?thesis
    by (simp add: submit_def submit_handler_def Let_def split_def getItem_def gather_def
          read_plan_def read_credits_def started_def [symmetric]
          split: option.split prod.split)
qed

lemma generate_resume_eq:
  "generate_resume en p c fd w =
     (case resume_blob en of
        Inl e \<Rightarrow> (Some (ResumeRequest, e), emit (Fetch resume_url fd) w)
      | Inr rb \<Rightarrow>
          generate_cover_letter en p c fd
            (downloadBlob rb resume_filename (emit (Fetch resume_url fd) w)))"
  by (simp add: generate_resume_def resume_blob_def reply_blob_def Let_def
        split: fetch_result.split sum.split)

lemma generate_cover_letter_eq:
  "generate_cover_letter en p c fd w =
     (case cover_letter_blob en of
        Inl e \<Rightarrow> (Some (CoverLetterRequest, e), emit (Fetch cover_letter_url fd) w)
      | Inr cb \<Rightarrow>
          update_credits_and_ui en p c
            (downloadBlob cb cover_letter_filename (emit (Fetch cover_letter_url fd) w)))"
  by (simp add: generate_cover_letter_def cover_letter_blob_def reply_blob_def Let_def
        split: fetch_result.split sum.split)

lemma update_credits_and_ui_eq:
  "update_credits_and_ui en (read_plan st) (read_credits st)
     (downloadBlob cb cover_letter_filename (cover_letter_requested d st fd rb)) =
     (case credit_count d of
        None \<Rightarrow>
          (Some (Unexpected, Exn (ascii ''TypeError'') (null_error_message en)),
           credits_updated d st fd rb cb)
      | Some x \<Rightarrow>
          (None,
           progress_done (announce msg_complete (showToast msg_ready Success
             (set_credit_count (shown_credits st) (credits_updated d st fd rb cb))))))"
  by (cases "read_plan st = premium")
    (simp_all add: update_credits_and_ui_def credits_updated_def shown_credits_def
       new_credits_def Let_def split: option.split)

lemma submit_no_button:
  assumes "submit_button d = None"
  shows "submit en d st = (Uncaught, announce msg_generating \<lparr>dom = d, storage = st, trace = []\<rparr>)"
  using assms by (simp add: submit_unfold)

lemma submit_gate_blocked:
  assumes "submit_button d = Some b" "gate_blocks (read_plan st) (read_credits st)"
  shows "submit en d st =
     (Failed CreditGate,
      set_button False (innerHTML b) (showToast msg_no_credits Error (started d st)))"
  using assms by (simp add: submit_unfold)

lemma submit_malformed_tag:
  assumes "submit_button d = Some b" "\<not> gate_blocks (read_plan st) (read_credits st)"
    "formData d = None"
  shows "submit en d st = (Uncaught, started d st)"
  using assms by (simp add: submit_unfold)

lemma submit_invalid:
  assumes "submit_button d = Some b" "\<not> gate_blocks (read_plan st) (read_credits st)"
    "formData d = Some fd" "first_missing fd requiredFields = Some key"
  shows "submit en d st =
     (Failed Validation,
      set_button False (innerHTML b) (showToast msg_required Error (started d st)))"
  using assms by (simp add: submit_unfold)

lemma submit_resume_failed:
  assumes "submit_button d = Some b" "\<not> gate_blocks (read_plan st) (read_credits st)"
    "formData d = Some fd" "first_missing fd requiredFields = None"
    "resume_blob en = Inl e"
  shows "submit en d st =
     (Failed ResumeRequest,
      set_button False (innerHTML b) (catch_block e (resume_requested d st fd)))"
  using assms by (simp add: submit_unfold generate_resume_eq resume_requested_def)

lemma submit_cover_letter_failed:
  assumes "submit_button d = Some b" "\<not> gate_blocks (read_plan st) (read_credits st)"
    "formData d = Some fd" "first_missing fd requiredFields = None"
    "resume_blob en = Inr rb" "cover_letter_blob en = Inl e"
  shows "submit en d st =
     (Failed CoverLetterRequest,
      set_button False (innerHTML b) (catch_block e (cover_letter_requested d st fd rb)))"
  using assms
  by (simp add: submit_unfold generate_resume_eq generate_cover_letter_eq
        resume_requested_def cover_letter_requested_def)

lemma submit_no_credit_count:
  assumes "submit_button d = Some b" "\<not> gate_blocks (read_plan st) (read_credits st)"
    "formData d = Some fd" "first_missing fd requiredFields = None"
    "resume_blob en = Inr rb" "cover_letter_blob en = Inr cb" "credit_count d = None"
  shows "submit en d st =
     (Failed Unexpected,
      set_button False (innerHTML b)
        (catch_block (Exn (ascii ''TypeError'') (null_error_message en))
           (credits_updated d st fd rb cb)))"
proof -
  have "generate_resume en (read_plan st) (read_credits st) fd (progress_reset (started d st))
      = update_credits_and_ui en (read_plan st) (read_credits st)
          (downloadBlob cb cover_letter_filename (cover_letter_requested d st fd rb))"
    using assms(5,6)
    by (simp add: generate_resume_eq generate_cover_letter_eq resume_requested_def
          cover_letter_requested_def)
  with assms show ?thesis
    by (simp add: submit_unfold update_credits_and_ui_eq)
qed

lemma submit_done:
  assumes "submit_button d = Some b" "\<not> gate_blocks (read_plan st) (read_credits st)"
    "formData d = Some fd" "first_missing fd requiredFields = None"
    "resume_blob en = Inr rb" "cover_letter_blob en = Inr cb" "credit_count d = Some x"
  shows "submit en d st =
     (Done,
      set_button False (innerHTML b)
        (progress_done (announce msg_complete (showToast msg_ready Success
          (set_credit_count (shown_credits st) (credits_updated d st fd rb cb))))))"
proof -
  have "generate_resume en (read_plan st) (read_credits st) fd (progress_reset (started d st))
      = update_credits_and_ui en (read_plan st) (read_credits st)
          (downloadBlob cb cover_letter_filename (cover_letter_requested d st fd rb))"
    using assms(5,6)
    by (simp add: generate_resume_eq generate_cover_letter_eq resume_requested_def
          cover_letter_requested_def)
  with assms show ?thesis
    by (simp add: submit_unfold update_credits_and_ui_eq)
qed

text \<open>Every run takes one of the paths.\<close>

lemma submit_cases:
  obtains (no_button) "submit_button d = None"
  | (gate_blocked) b where "submit_button d = Some b"
      "gate_blocks (read_plan st) (read_credits st)"
  | (malformed_tag) b where "submit_button d = Some b"
      "\<not> gate_blocks (read_plan st) (read_credits st)" "formData d = None"
  | (invalid) b fd key where "submit_button d = Some b"
      "\<not> gate_blocks (read_plan st) (read_credits st)" "formData d = Some fd"
      "first_missing fd requiredFields = Some key"
  | (resume_failed) b fd e where "submit_button d = Some b"
      "\<not> gate_blocks (read_plan st) (read_credits st)" "formData d = Some fd"
      "first_missing fd requiredFields = None" "resume_blob en = Inl e"
  | (cover_letter_failed) b fd rb e where "submit_button d = Some b"
      "\<not> gate_blocks (read_plan st) (read_credits st)" "formData d = Some fd"
      "first_missing fd requiredFields = None" "resume_blob en = Inr rb"
      "cover_letter_blob en = Inl e"
  | (no_credit_count) b fd rb cb where "submit_button d = Some b"
      "\<not> gate_blocks (read_plan st) (read_credits st)" "formData d = Some fd"
      "first_missing fd requiredFields = None" "resume_blob en = Inr rb"
      "cover_letter_blob en = Inr cb" "credit_count d = None"
  | (succeeded) b fd rb cb x where "submit_button d = Some b"
      "\<not> gate_blocks (read_plan st) (read_credits st)" "formData d = Some fd"
      "first_missing fd requiredFields = None" "resume_blob en = Inr rb"
      "cover_letter_blob en = Inr cb" "credit_count d = Some x"
proof (cases "submit_button d")
  case None
  then show ?thesis by (rule no_button)
next
  case b: (Some b)
  show ?thesis
  proof (cases "gate_blocks (read_plan st) (read_credits st)")
    case True
    with b show ?thesis by (rule gate_blocked)
  next
    case gate: False
    show ?thesis
    proof (cases "formData d")
      case None
      with b gate show ?thesis by (rule malformed_tag)
    next
      case fd: (Some fd)
      show ?thesis
      proof (cases "first_missing fd requiredFields")
        case (Some key)
        with b gate fd show ?thesis by (rule invalid)
      next
        case valid: None
        show ?thesis
        proof (cases "resume_blob en")
          case (Inl e)
          with b gate fd valid show ?thesis by (rule resume_failed)
        next
          case rb: (Inr rb)
          show ?thesis
          proof (cases "cover_letter_blob en")
            case (Inl e)
            with b gate fd valid rb show ?thesis by (rule cover_letter_failed)
          next
            case cb: (Inr cb)
            show ?thesis
            proof (cases "credit_count d")
              case None
              with b gate fd valid rb cb show ?thesis by (rule no_credit_count)
            next
              case (Some x)
              with b gate fd valid rb cb show ?thesis by (rule succeeded)
            qed
          qed
        qed
      qed
    qed
  qed
qed

lemma first_missing_None_iff:
  "first_missing fd requiredFields = None \<longleftrightarrow>
     current_position fd \<noteq> [] \<and> years_experience fd \<noteq> [] \<and> target_position fd \<noteq> []
     \<and> industry fd \<noteq> []"
  by (simp add: requiredFields_def)

lemma reaches_requests_cases:
  "reaches_requests d st \<longleftrightarrow>
     (\<exists>b fd. submit_button d = Some b \<and> \<not> gate_blocks (read_plan st) (read_credits st)
        \<and> formData d = Some fd \<and> first_missing fd requiredFields = None)"
  by (auto simp: reaches_requests_def split: option.splits)

text \<open>The outcome of a run, path by path.\<close>

lemma fst_submit_CreditGate:
  "fst (submit en d st) = Failed CreditGate \<longleftrightarrow>
     submit_button d \<noteq> None \<and> gate_blocks (read_plan st) (read_credits st)"
proof (cases rule: submit_cases [where d = d and st = st and en = en])
  case no_button
  then show ?thesis by (simp add: submit_no_button)
next
  case (gate_blocked b)
  then show ?thesis by (simp add: submit_gate_blocked)
next
  case (malformed_tag b)
  then show ?thesis by (simp add: submit_malformed_tag)
next
  case (invalid b fd key)
  then show ?thesis by (simp add: submit_invalid)
next
  case (resume_failed b fd e)
  then show ?thesis by (simp add: submit_resume_failed)
next
  case (cover_letter_failed b fd rb e)
  then show ?thesis by (simp add: submit_cover_letter_failed)
next
  case (no_credit_count b fd rb cb)
  then show ?thesis by (simp add: submit_no_credit_count)
next
  case (succeeded b fd rb cb x)
  then show ?thesis by (simp add: submit_done)
qed

lemma gate_blocked_no_effect:
  assumes "gate_blocks (read_plan st) (read_credits st)"
  shows "filter is_request (trace (snd (submit en d st))) = []
       \<and> filter is_storage_write (trace (snd (submit en d st))) = []
       \<and> storage (snd (submit en d st)) = st"
proof (cases "submit_button d")
  case None
  then show ?thesis by (simp add: submit_no_button)
next
  case (Some b)
  with assms show ?thesis by (simp add: submit_gate_blocked)
qed

text \<open>What a run that ends at the validation has done.\<close>

lemma submit_Validation_result:
  assumes "fst (submit en d st) = Failed Validation"
  shows "toast (dom (snd (submit en d st))) = Some (msg_required, Error)
       \<and> filter is_toast (trace (snd (submit en d st))) = [Toast msg_required Error]
       \<and> (\<exists>fd key. formData d = Some fd \<and> first_missing fd requiredFields = Some key)"
proof (cases rule: submit_cases [where d = d and st = st and en = en])
  case no_button
  with assms show ?thesis by (simp add: submit_no_button)
next
  case (gate_blocked b)
  with assms show ?thesis by (simp add: submit_gate_blocked)
next
  case (malformed_tag b)
  with assms show ?thesis by (simp add: submit_malformed_tag)
next
  case (invalid b fd key)
  then show ?thesis by (simp add: submit_invalid)
next
  case (resume_failed b fd e)
  with assms show ?thesis by (simp add: submit_resume_failed)
next
  case (cover_letter_failed b fd rb e)
  with assms show ?thesis by (simp add: submit_cover_letter_failed)
next
  case (no_credit_count b fd rb cb)
  with assms show ?thesis by (simp add: submit_no_credit_count)
next
  case (succeeded b fd rb cb x)
  with assms show ?thesis by (simp add: submit_done)
qed

text \<open>What a run that ends in \<open>Done\<close> has done.\<close>

lemma submit_Done_result:
  assumes "fst (submit en d st) = Done"
  shows "storage (snd (submit en d st)) =
           (if read_plan st \<noteq> premium then st(credits_key \<mapsto> new_credits st) else st)
       \<and> credit_count (dom (snd (submit en d st))) = Some (shown_credits st)
       \<and> \<not> gate_blocks (read_plan st) (read_credits st)"
proof (cases rule: submit_cases [where d = d and st = st and en = en])
  case no_button
  with assms show ?thesis by (simp add: submit_no_button)
next
  case (gate_blocked b)
  with assms show ?thesis by (simp add: submit_gate_blocked)
next
  case (malformed_tag b)
  with assms show ?thesis by (simp add: submit_malformed_tag)
next
  case (invalid b fd key)
  with assms show ?thesis by (simp add: submit_invalid)
next
  case (resume_failed b fd e)
  with assms show ?thesis by (simp add: submit_resume_failed)
next
  case (cover_letter_failed b fd rb e)
  with assms show ?thesis by (simp add: submit_cover_letter_failed)
next
  case (no_credit_count b fd rb cb)
  with assms show ?thesis by (simp add: submit_no_credit_count)
next
  case (succeeded b fd rb cb x)
  then show ?thesis by (simp add: submit_done)
qed

text \<open>
  What a run does to the storage: nothing, or one write of the lowered credits, on a
  plan other than premium, after both artifacts have been retrieved and downloaded.
\<close>

lemma submit_storage:
  "(storage (snd (submit en d st)) = st
      \<and> filter is_storage_write (trace (snd (submit en d st))) = [])
   \<or> (storage (snd (submit en d st)) = st(credits_key \<mapsto> new_credits st)
      \<and> read_plan st \<noteq> premium
      \<and> \<not> gate_blocks (read_plan st) (read_credits st)
      \<and> (\<exists>rb cb. retrieved (resume_reply en) = Some rb
            \<and> retrieved (cover_letter_reply en) = Some cb
            \<and> filter is_download_or_write (trace (snd (submit en d st))) =
                [Download rb resume_filename, Download cb cover_letter_filename,
                 StorageSet credits_key (new_credits st)]))"
proof (cases rule: submit_cases [where d = d and st = st and en = en])
  case no_button
  then show ?thesis by (simp add: submit_no_button)
next
  case (gate_blocked b)
  then show ?thesis by (simp add: submit_gate_blocked)
next
  case (malformed_tag b)
  then show ?thesis by (simp add: submit_malformed_tag)
next
  case (invalid b fd key)
  then show ?thesis by (simp add: submit_invalid)
next
  case (resume_failed b fd e)
  then show ?thesis by (simp add: submit_resume_failed)
next
  case (cover_letter_failed b fd rb e)
  then show ?thesis by (simp add: submit_cover_letter_failed)
next
  case (no_credit_count b fd rb cb)
  then show ?thesis
    by (simp add: submit_no_credit_count is_download_or_write_def blob_retrieved)
next
  case (succeeded b fd rb cb x)
  then show ?thesis
    by (simp add: submit_done is_download_or_write_def blob_retrieved)
qed

lemma submit_credits_step:
  assumes "read_credits st = Num n" "0 \<le> n"
  shows "\<exists>m. read_credits (storage (snd (submit en d st))) = Num m \<and> 0 \<le> m \<and> m \<le> n"
  using submit_storage [of en d st] assms
  by (auto simp: new_credits_def js_minus_one_def gate_blocks_def js_le_def
        read_credits_written)

lemma submit_all_credits:
  assumes "read_credits st = Num n" "0 \<le> n"
  shows "\<exists>m. read_credits (submit_all rs st) = Num m \<and> 0 \<le> m \<and> m \<le> n"
  using assms
proof (induction rs arbitrary: st n)
  case Nil
  then show ?case by simp
next
  case (Cons r rs)
  obtain en d where r: "r = (en, d)"
    by (cases r)
  obtain m where m: "read_credits (storage (snd (submit en d st))) = Num m" "0 \<le> m" "m \<le> n"
    using submit_credits_step [OF Cons.prems] by blast
  obtain k where "read_credits (submit_all rs (storage (snd (submit en d st)))) = Num k"
    "0 \<le> k" "k \<le> m"
    using Cons.IH [OF m(1,2)] by blast
  with m(3) show ?case
    by (auto simp: r)
qed

text \<open>A run does not touch the form controls or the skill tags.\<close>

lemma submit_keeps_form:
  "field_value (dom (snd (submit en d st))) = field_value d
   \<and> skill_tags (dom (snd (submit en d st))) = skill_tags d"
proof (cases rule: submit_cases [where d = d and st = st and en = en])
  case no_button
  then show ?thesis by (simp add: submit_no_button)
next
  case (gate_blocked b)
  then show ?thesis by (simp add: submit_gate_blocked)
next
  case (malformed_tag b)
  then show ?thesis by (simp add: submit_malformed_tag)
next
  case (invalid b fd key)
  then show ?thesis by (simp add: submit_invalid)
next
  case (resume_failed b fd e)
  then show ?thesis
    by (simp add: submit_resume_failed catch_block_def resume_requested_def)
next
  case (cover_letter_failed b fd rb e)
  then show ?thesis
    by (simp add: submit_cover_letter_failed catch_block_def cover_letter_requested_def
          resume_requested_def)
next
  case (no_credit_count b fd rb cb)
  then show ?thesis
    by (simp add: submit_no_credit_count catch_block_def credits_updated_def
          cover_letter_requested_def resume_requested_def Let_def)
next
  case (succeeded b fd rb cb x)
  then show ?thesis
    by (simp add: submit_done credits_updated_def cover_letter_requested_def
          resume_requested_def Let_def)
qed

text \<open>Every request of a run carries the record gathered from the page.\<close>

lemma requests_carry_formData:
  assumes "Fetch u fd \<in> set (trace (snd (submit en d st)))"
  shows "formData d = Some fd"
proof (cases rule: submit_cases [where d = d and st = st and en = en])
  case no_button
  with assms show ?thesis by (simp add: submit_no_button)
next
  case (gate_blocked b)
  with assms show ?thesis by (simp add: submit_gate_blocked)
next
  case (malformed_tag b)
  with assms show ?thesis by (simp add: submit_malformed_tag)
next
  case (invalid b fd' key)
  with assms show ?thesis by (simp add: submit_invalid)
next
  case (resume_failed b fd' e)
  with assms show ?thesis by (simp add: submit_resume_failed split: if_splits)
next
  case (cover_letter_failed b fd' rb e)
  with assms show ?thesis by (auto simp: submit_cover_letter_failed split: if_splits)
next
  case (no_credit_count b fd' rb cb)
  with assms show ?thesis by (auto simp: submit_no_credit_count split: if_splits)
next
  case (succeeded b fd' rb cb x)
  with assms show ?thesis by (auto simp: submit_done split: if_splits)
qed

section \<open>The second listener and the first\<close>

lemma later_event_simps [simp]:
  "is_later AnimationStart" "is_later (AnimationTick n)" "is_later ProgressTimeout"
  "\<not> is_later (Announce a)" "\<not> is_later (SetBusy c)" "\<not> is_later (StorageGet k)"
  "\<not> is_later (StorageSet k s)" "\<not> is_later (Toast m t)" "\<not> is_later (Fetch v fd)"
  "\<not> is_later (Download b f)" "\<not> is_later ProgressReset" "\<not> is_later ProgressDone"
  "\<not> is_later ProgressHide" "\<not> is_later (CreditCount a)" "\<not> is_later (ConsoleError x)"
  by (simp_all add: is_later_def)

lemma agree_refl [simp]: "agree w w"
  by (simp add: agree_def)

lemma agree_trans: "agree w w' \<Longrightarrow> agree w' w'' \<Longrightarrow> agree w w''"
  by (simp add: agree_def)

lemma agree_has_progress: "agree w w' \<Longrightarrow> has_progress (dom w) = has_progress (dom w')"
  by (simp add: agree_def has_progress_def)

lemma follows_tick: "follows tw w \<Longrightarrow> follows (animation_tick tw) w"
  by (cases tw)
    (auto simp: follows_def animation_tick_def agree_def emit_def Let_def has_progress_def
       split: option.splits)

lemma follows_ticks [simp]: "follows tw w \<Longrightarrow> follows (animation_ticks k tw) w"
  by (induction k arbitrary: tw) (simp_all add: follows_tick)

lemma follows_start [simp]: "follows (animation_start w) w"
  by (simp add: follows_def animation_start_def agree_def emit_def has_progress_def)

lemma follows_timeout [simp]:
  "follows tw w \<Longrightarrow> follows (fst tw, progress_timeout (snd tw)) w"
  by (auto simp: follows_def progress_timeout_def agree_def emit_def has_progress_def)

lemma follows_agree: "follows tw w \<Longrightarrow> agree w w' \<Longrightarrow> follows tw w'"
  by (auto simp: follows_def intro: agree_trans)

lemma follows_step [simp]:
  assumes "follows (t, w) w'"
  shows "follows (t, emit e w) (emit e w')"
    "follows (t, downloadBlob b f w) (downloadBlob b f w')"
    "follows (t, setItem k v w) (setItem k v w')"
    "follows (t, showToast m s w) (showToast m s w')"
    "follows (t, announce a w) (announce a w')"
    "follows (t, set_button c h w) (set_button c h w')"
    "follows (t, set_credit_count x w) (set_credit_count x w')"
    "follows (t, progress_done w) (progress_done w')"
    "follows (t, progress_hide w) (progress_hide w')"
    "follows (t, catch_block err w) (catch_block err w')"
  using assms
  by (auto simp: follows_def agree_def has_progress_def catch_block_def)

lemma follows_update_credits_and_ui:
  assumes "follows (t, w) w'"
  shows "fst (update_credits_and_ui en p c w) = fst (update_credits_and_ui en p c w')
       \<and> follows (t, snd (update_credits_and_ui en p c w))
           (snd (update_credits_and_ui en p c w'))"
proof -
  have cc: "credit_count (dom w) = credit_count (dom w')"
    using assms by (simp add: follows_def agree_def)
  show ?thesis
    using assms cc
    by (cases "credit_count (dom w')") (simp_all add: update_credits_and_ui_def Let_def)
qed

lemma hundred_percent: "number_to_string (Num 100) @ ascii ''%'' = ascii ''100%''"
  by (simp add: number_to_string_def digits_of_nat.simps ascii_def)

lemma ticking_tick: "ticking tw \<Longrightarrow> ticking (animation_tick tw)"
proof (cases tw)
  case (Pair t w)
  assume a: "ticking tw"
  show ?thesis
  proof (cases t)
    case None
    with a Pair show ?thesis by (simp add: animation_tick_def)
  next
    case (Some p)
    with a Pair have p: "p < 100" "p mod 10 = 0"
      by (simp_all add: ticking_def)
    show ?thesis
    proof (cases "100 \<le> p + 10")
      case True
      with p have "p = 90" by presburger
      with Pair Some show ?thesis
        by (simp add: animation_tick_def ticking_def Let_def emit_def hundred_percent)
    next
      case False
      with p Pair Some show ?thesis
        by (simp add: animation_tick_def ticking_def Let_def)
    qed
  qed
qed

lemma ticking_ticks [simp]: "ticking tw \<Longrightarrow> ticking (animation_ticks k tw)"
  by (induction k arbitrary: tw) (simp_all add: ticking_tick)

lemma ticking_start [simp]: "has_progress (dom w) \<Longrightarrow> ticking (animation_start w)"
  by (simp add: animation_start_def ticking_def)

lemma ticking_step [simp]:
  assumes "ticking (t, w)"
  shows "ticking (t, emit e w)"
    "ticking (t, downloadBlob b f w)"
    "ticking (t, setItem k v w)"
    "ticking (t, showToast m s w)"
    "ticking (t, announce a w)"
    "ticking (t, set_button c h w)"
    "ticking (t, set_credit_count x w)"
    "ticking (t, progress_done w)"
    "ticking (t, progress_hide w)"
    "ticking (t, catch_block err w)"
    "ticking (t, progress_timeout w)"
  using assms
  by (auto simp: ticking_def catch_block_def progress_timeout_def emit_def split: option.splits)

lemma ticks_stop:
  assumes "ticking tw" "case fst tw of None \<Rightarrow> True | Some p \<Rightarrow> 100 \<le> p + 10 * k"
  shows "fst (animation_ticks k tw) = None"
  using assms
proof (induction k arbitrary: tw)
  case 0
  then show ?case by (auto simp: ticking_def split: option.splits)
next
  case (Suc k)
  have "ticking (animation_tick tw)"
    using Suc.prems(1) by (rule ticking_tick)
  moreover have "case fst (animation_tick tw) of None \<Rightarrow> True | Some p \<Rightarrow> 100 \<le> p + 10 * k"
    using Suc.prems by (cases tw) (auto simp: animation_tick_def Let_def split: option.splits)
  ultimately show ?case
    using Suc.IH [of "animation_tick tw"] by simp
qed

lemma ticks_complete:
  assumes "ticking tw"
  shows "progress_fill (dom (snd (animation_ticks 10 tw))) = Some (ascii ''100%'')
       \<and> progress_text (dom (snd (animation_ticks 10 tw))) = Some (ascii ''Done!'')
       \<and> AnimationTick 100 \<in> set (trace (snd (animation_ticks 10 tw)))"
proof -
  have "case fst tw of None \<Rightarrow> True | Some p \<Rightarrow> 100 \<le> p + 10 * (10::nat)"
    by (simp split: option.split)
  then have "fst (animation_ticks 10 tw) = None"
    using assms by (rule ticks_stop [rotated])
  moreover have "ticking (animation_ticks 10 tw)"
    using assms by simp
  ultimately show ?thesis
    by (simp add: ticking_def)
qed

lemma container_tick [simp]:
  "progress_container (dom (snd (animation_tick tw))) = progress_container (dom (snd tw))"
  by (cases tw) (simp add: animation_tick_def Let_def emit_def split: option.splits)

lemma container_ticks [simp]:
  "progress_container (dom (snd (animation_ticks k tw))) = progress_container (dom (snd tw))"
  by (induction k arbitrary: tw) simp_all


lemma container_catch_block [simp]:
  "progress_container (dom (catch_block e w)) =
     (if progress_container (dom w) \<noteq> None then Some (ascii ''none'') else None)"
  by (simp add: catch_block_def)

lemma container_update_credits_and_ui:
  "fst (update_credits_and_ui en p c w) \<noteq> None \<Longrightarrow>
   progress_container (dom (snd (update_credits_and_ui en p c w))) = progress_container (dom w)"
  by (cases "credit_count (dom w)") (simp_all add: update_credits_and_ui_def Let_def)

lemma ticking_update_credits_and_ui:
  "ticking (t, w) \<Longrightarrow> ticking (t, snd (update_credits_and_ui en p c w))"
  by (cases "credit_count (dom w)") (simp_all add: update_credits_and_ui_def Let_def)

text \<open>
  The rest of the first listener with the interval running: it ends as it ends without
  the interval, in a world that agrees with the one without it.
\<close>

lemma submit_rest_follows:
  fixes tm en orig p c fd tw w0
  defines "r \<equiv> submit_rest tm en orig p c fd tw"
    and "h \<equiv> (case generate_resume en p c fd w0 of
                 (None, w) \<Rightarrow> (Done, set_button False orig w)
               | (Some (stg, error), w) \<Rightarrow>
                   (Failed stg, set_button False orig (catch_block error w)))"
  assumes f: "follows tw (emit (Fetch resume_url fd) w0)"
  shows "fst r = fst h \<and> follows (snd r) (snd h)
       \<and> (ticking tw \<longrightarrow> ticking (snd r))
       \<and> (fst r \<noteq> Done \<longrightarrow> progress_container (dom (snd tw)) \<noteq> None \<longrightarrow>
            progress_container (dom (snd (snd r))) = Some (ascii ''none''))"
proof (cases "resume_reply en")
  case (Rejected e)
  with f show ?thesis
    by (simp add: r_def h_def submit_rest_def generate_resume_def thrown_def Let_def)
next
  case resume: (Fulfilled resumeRes)
  show ?thesis
  proof (cases "ok resumeRes")
    case False
    with f resume show ?thesis
      by (simp add: r_def h_def submit_rest_def generate_resume_def thrown_def Let_def)
  next
    case ok1: True
    show ?thesis
    proof (cases "blob_result resumeRes")
      case (Inl e)
      with f resume ok1 show ?thesis
        by (simp add: r_def h_def submit_rest_def generate_resume_def thrown_def Let_def)
    next
      case rb: (Inr rb)
      show ?thesis
      proof (cases "cover_letter_reply en")
        case (Rejected e)
        with f resume ok1 rb show ?thesis
          by (simp add: r_def h_def submit_rest_def generate_resume_def
                generate_cover_letter_def thrown_def Let_def)
      next
        case cover: (Fulfilled coverLetterRes)
        show ?thesis
        proof (cases "ok coverLetterRes")
          case False
          with f resume ok1 rb cover show ?thesis
            by (simp add: r_def h_def submit_rest_def generate_resume_def
                  generate_cover_letter_def thrown_def Let_def)
        next
          case ok2: True
          show ?thesis
          proof (cases "blob_result coverLetterRes")
            case (Inl e)
            with f resume ok1 rb cover ok2 show ?thesis
              by (simp add: r_def h_def submit_rest_def generate_resume_def
                    generate_cover_letter_def thrown_def Let_def)
          next
            case cb: (Inr cb)
            define tw4 where "tw4 =
              animation_ticks (during_cover_letter_blob tm)
                (animation_ticks (during_cover_letter_request tm)
                  (fst (animation_ticks (during_resume_blob tm)
                          (animation_ticks (during_resume_request tm) tw)),
                   emit (Fetch cover_letter_url fd)
                     (downloadBlob rb resume_filename
                        (snd (animation_ticks (during_resume_blob tm)
                                (animation_ticks (during_resume_request tm) tw))))))"
            define W where "W = downloadBlob cb cover_letter_filename (snd tw4)"
            define W' where "W' = downloadBlob cb cover_letter_filename
              (emit (Fetch cover_letter_url fd)
                 (downloadBlob rb resume_filename (emit (Fetch resume_url fd) w0)))"
            have F: "follows (fst tw4, W) W'"
              using f by (simp add: tw4_def W_def W'_def)
            have T: "ticking tw \<Longrightarrow> ticking (fst tw4, W)"
              by (simp add: tw4_def W_def)
            have C: "progress_container (dom W) = progress_container (dom (snd tw))"
              by (simp add: tw4_def W_def)
            have r: "r = (case update_credits_and_ui en p c W of
                  (None, w) \<Rightarrow> (Done, fst tw4, set_button False orig w)
                | (Some (stg, error), w) \<Rightarrow> thrown orig stg error (fst tw4, w))"
              using resume ok1 rb cover ok2 cb
              unfolding r_def submit_rest_def Let_def tw4_def W_def by simp
            have h: "h = (case update_credits_and_ui en p c W' of
                  (None, w) \<Rightarrow> (Done, set_button False orig w)
                | (Some (stg, error), w) \<Rightarrow>
                    (Failed stg, set_button False orig (catch_block error w)))"
              using resume ok1 rb cover ok2 cb
              unfolding h_def generate_resume_def generate_cover_letter_def Let_def W'_def
              by simp
            obtain x w where u: "update_credits_and_ui en p c W = (x, w)"
              by (cases "update_credits_and_ui en p c W")
            obtain x' w' where u': "update_credits_and_ui en p c W' = (x', w')"
              by (cases "update_credits_and_ui en p c W'")
            have same: "x = x'" and fw: "follows (fst tw4, w) w'"
              using follows_update_credits_and_ui [OF F, of en p c] u u' by simp_all
            have tw: "ticking tw \<Longrightarrow> ticking (fst tw4, w)"
              using ticking_update_credits_and_ui [OF T, of en p c] u by simp
            have cw: "x \<noteq> None \<Longrightarrow> progress_container (dom w) = progress_container (dom (snd tw))"
              using container_update_credits_and_ui [of en p c W] u C by simp
            show ?thesis
            proof (cases x)
              case None
              with same fw tw show ?thesis
                by (simp add: r h u u')
            next
              case (Some se)
              obtain stg error where se: "se = (stg, error)"
                by (cases se)
              with Some same fw tw cw show ?thesis
                by (simp add: r h u u' thrown_def)
            qed
          qed
        qed
      qed
    qed
  qed
qed


lemma submit_sync_unfold:
  "submit_sync \<lparr>dom = d, storage = st, trace = []\<rparr> =
     (case submit_button d of
        None \<Rightarrow> Inl (Uncaught, announce msg_generating \<lparr>dom = d, storage = st, trace = []\<rparr>)
      | Some b \<Rightarrow>
          if gate_blocks (read_plan st) (read_credits st) then
            Inl (Failed CreditGate,
                 set_button False (innerHTML b) (showToast msg_no_credits Error (started d st)))
          else
            (case formData d of
               None \<Rightarrow> Inl (Uncaught, started d st)
             | Some fd \<Rightarrow>
                 (case first_missing fd requiredFields of
                    Some key \<Rightarrow>
                      Inl (Failed Validation,
                           set_button False (innerHTML b)
                             (showToast msg_required Error (started d st)))
                  | None \<Rightarrow>
                      Inr (innerHTML b, read_plan st, read_credits st, fd,
                           emit (Fetch resume_url fd) (progress_reset (started d st))))))"
proof (cases "submit_button d")
  case None
  then show ?thesis
    by (simp add: submit_sync_def)
next
  case (Some b)
  then show ?thesis
    by (simp add: submit_sync_def Let_def split_def getItem_def gather_def
          read_plan_def read_credits_def started_def [symmetric]
          split: option.split prod.split)
qed

lemma has_progress_kept [simp]:
  "has_progress (dom (announce a w)) = has_progress (dom w)"
  "has_progress (dom (showToast m t w)) = has_progress (dom w)"
  "has_progress (dom (set_button c h w)) = has_progress (dom w)"
  "has_progress (dom (emit e w)) = has_progress (dom w)"
  "has_progress (dom (progress_reset w)) = has_progress (dom w)"
  "has_progress (dom (started d st)) = has_progress d"
  by (simp_all add: has_progress_def)

text \<open>
  The whole submit event against the run of the first listener alone: the same
  outcome, and worlds that agree. On a page with the three progress elements the
  second listener takes the fill to 100% and the text to \<^verbatim>\<open>Done!\<close>, whatever the
  outcome and the timing; after a run that ended in the \<^verbatim>\<open>catch\<close> block the progress
  bar is hidden.
\<close>

lemma submit_event_follows:
  "fst (submit_event tm en d st) = fst (submit en d st)
   \<and> agree (snd (submit_event tm en d st)) (snd (submit en d st))
   \<and> (has_progress d \<longrightarrow>
        progress_fill (dom (snd (submit_event tm en d st))) = Some (ascii ''100%'')
      \<and> progress_text (dom (snd (submit_event tm en d st))) = Some (ascii ''Done!'')
      \<and> AnimationTick 100 \<in> set (trace (snd (submit_event tm en d st))))
   \<and> (reaches_requests d st \<longrightarrow> fst (submit en d st) \<noteq> Done \<longrightarrow>
        progress_container d \<noteq> None \<longrightarrow>
        progress_container (dom (snd (submit_event tm en d st))) = Some (ascii ''none''))"
proof -
  have early: ?thesis
    if sync: "submit_sync \<lparr>dom = d, storage = st, trace = []\<rparr> = Inl (out, w)"
      and run: "submit en d st = (out, w)" and hp: "has_progress (dom w) = has_progress d"
      and nr: "\<not> reaches_requests d st"
    for out w
  proof -
    have e: "submit_event tm en d st = (out, snd (animation_ticks 10 (animation_start w)))"
      by (simp add: submit_event_def sync)
    have "follows (animation_ticks 10 (animation_start w)) w"
      by simp
    then have a: "agree (snd (animation_ticks 10 (animation_start w))) w"
      by (simp add: follows_def)
    have "has_progress d \<Longrightarrow> ticking (animation_start w)"
      using hp by simp
    then show ?thesis
      using a nr ticks_complete [of "animation_start w"] by (simp add: e run)
  qed
  show ?thesis
  proof (cases "submit_button d")
    case None
    then have "submit_sync \<lparr>dom = d, storage = st, trace = []\<rparr> =
        Inl (Uncaught, announce msg_generating \<lparr>dom = d, storage = st, trace = []\<rparr>)"
      and "submit en d st =
        (Uncaught, announce msg_generating \<lparr>dom = d, storage = st, trace = []\<rparr>)"
      by (simp_all add: submit_sync_unfold submit_unfold)
    then show ?thesis
      by (rule early) (simp_all add: has_progress_def reaches_requests_def None)
  next
    case b: (Some b)
    show ?thesis
    proof (cases "gate_blocks (read_plan st) (read_credits st)")
      case True
      with b have "submit_sync \<lparr>dom = d, storage = st, trace = []\<rparr> =
          Inl (Failed CreditGate,
               set_button False (innerHTML b) (showToast msg_no_credits Error (started d st)))"
        and "submit en d st =
          (Failed CreditGate,
           set_button False (innerHTML b) (showToast msg_no_credits Error (started d st)))"
        by (simp_all add: submit_sync_unfold submit_unfold)
      then show ?thesis
        by (rule early) (simp_all add: has_progress_def reaches_requests_def True)
    next
      case gate: False
      show ?thesis
      proof (cases "formData d")
        case None
        with b gate have "submit_sync \<lparr>dom = d, storage = st, trace = []\<rparr> =
            Inl (Uncaught, started d st)"
          and "submit en d st = (Uncaught, started d st)"
          by (simp_all add: submit_sync_unfold submit_unfold)
        then show ?thesis
          by (rule early) (simp_all add: has_progress_def reaches_requests_def None)
      next
        case fd: (Some fd)
        show ?thesis
        proof (cases "first_missing fd requiredFields")
          case (Some key)
          with b gate fd have "submit_sync \<lparr>dom = d, storage = st, trace = []\<rparr> =
              Inl (Failed Validation,
                   set_button False (innerHTML b)
                     (showToast msg_required Error (started d st)))"
            and "submit en d st =
              (Failed Validation,
               set_button False (innerHTML b) (showToast msg_required Error (started d st)))"
            by (simp_all add: submit_sync_unfold submit_unfold)
          then show ?thesis
            by (rule early) (simp_all add: has_progress_def reaches_requests_def fd Some)
        next
          case valid: None
          define w0 where "w0 = progress_reset (started d st)"
          define tw where "tw = animation_start (emit (Fetch resume_url fd) w0)"
          define r where "r = submit_rest tm en (innerHTML b) (read_plan st) (read_credits st)
            fd tw"
          have sync: "submit_sync \<lparr>dom = d, storage = st, trace = []\<rparr> =
              Inr (innerHTML b, read_plan st, read_credits st, fd, emit (Fetch resume_url fd) w0)"
            using b gate fd valid by (simp add: submit_sync_unfold w0_def)
          have run: "submit en d st =
              (case generate_resume en (read_plan st) (read_credits st) fd w0 of
                 (None, w) \<Rightarrow> (Done, set_button False (innerHTML b) w)
               | (Some (stg, error), w) \<Rightarrow>
                   (Failed stg, set_button False (innerHTML b) (catch_block error w)))"
            using b gate fd valid by (simp add: submit_unfold w0_def)
          have f: "follows tw (emit (Fetch resume_url fd) w0)"
            by (simp add: tw_def)
          have hp: "has_progress (dom (emit (Fetch resume_url fd) w0)) = has_progress d"
            by (auto simp: w0_def has_progress_def)
          have pc: "(progress_container (dom (snd tw)) = None) = (progress_container d = None)"
            using f by (simp add: follows_def agree_def w0_def has_progress_def)
          have t: "has_progress d \<Longrightarrow> ticking tw"
            using hp by (simp add: tw_def)
          note rest = submit_rest_follows [OF f, of tm en "innerHTML b" "read_plan st"
              "read_credits st", folded r_def run]
          obtain out tw' where r: "r = (out, tw')"
            by (cases r)
          have out: "out = fst (submit en d st)" and fw: "follows tw' (snd (submit en d st))"
            and tk: "has_progress d \<Longrightarrow> ticking tw'"
            and hid: "out \<noteq> Done \<Longrightarrow> progress_container d \<noteq> None \<Longrightarrow>
              progress_container (dom (snd tw')) = Some (ascii ''none'')"
            using rest t pc by (simp_all add: r)
          show ?thesis
          proof (cases "out = Done")
            case True
            define tz where "tz = animation_ticks (before_timeout tm) tw'"
            have e: "submit_event tm en d st =
                (out, snd (animation_ticks 10 (fst tz, progress_timeout (snd tz))))"
              using True sync r unfolding submit_event_def r_def tw_def tz_def Let_def
              by simp
            have "follows (animation_ticks 10 (fst tz, progress_timeout (snd tz)))
                (snd (submit en d st))"
              using fw by (simp add: tz_def)
            then have a: "agree (snd (animation_ticks 10 (fst tz, progress_timeout (snd tz))))
                (snd (submit en d st))"
              by (simp add: follows_def)
            have "has_progress d \<Longrightarrow> ticking (fst tz, progress_timeout (snd tz))"
              using tk ticking_step(11) [of "fst tz" "snd tz"] by (simp add: tz_def)
            then show ?thesis
              using a True out ticks_complete [of "(fst tz, progress_timeout (snd tz))"]
              by (simp add: e)
          next
            case False
            have e: "submit_event tm en d st = (out, snd (animation_ticks 10 tw'))"
              using False sync r unfolding submit_event_def r_def tw_def
              by simp
            have "follows (animation_ticks 10 tw') (snd (submit en d st))"
              using fw by simp
            then have a: "agree (snd (animation_ticks 10 tw')) (snd (submit en d st))"
              by (simp add: follows_def)
            show ?thesis
              using a False out tk hid ticks_complete [of tw'] by (simp add: e)
          qed
        qed
      qed
    qed
  qed
qed


lemma not_later_mem:
  "\<not> is_later e \<Longrightarrow> e \<in> set xs \<longleftrightarrow> e \<in> set (filter (\<lambda>e. \<not> is_later e) xs)"
  by simp

lemma ticks_no_interval [simp]: "animation_ticks k (None, w) = (None, w)"
  by (induction k) (simp_all add: animation_tick_def)

text \<open>A run keeps the progress elements that are there.\<close>

lemma submit_keeps_progress:
  "has_progress (dom (snd (submit en d st))) = has_progress d"
proof (cases rule: submit_cases [where d = d and st = st and en = en])
  case no_button
  then show ?thesis by (simp add: submit_no_button has_progress_def)
next
  case (gate_blocked b)
  then show ?thesis by (simp add: submit_gate_blocked has_progress_def)
next
  case (malformed_tag b)
  then show ?thesis by (simp add: submit_malformed_tag has_progress_def)
next
  case (invalid b fd key)
  then show ?thesis by (simp add: submit_invalid has_progress_def)
next
  case (resume_failed b fd e)
  then show ?thesis
    by (auto simp: submit_resume_failed catch_block_def resume_requested_def has_progress_def)
next
  case (cover_letter_failed b fd rb e)
  then show ?thesis
    by (auto simp: submit_cover_letter_failed catch_block_def cover_letter_requested_def
          resume_requested_def has_progress_def)
next
  case (no_credit_count b fd rb cb)
  then show ?thesis
    by (auto simp: submit_no_credit_count catch_block_def credits_updated_def
          cover_letter_requested_def resume_requested_def Let_def has_progress_def)
next
  case (succeeded b fd rb cb x)
  then show ?thesis
    by (auto simp: submit_done credits_updated_def cover_letter_requested_def
          resume_requested_def Let_def has_progress_def)
qed

text \<open>Without the three progress elements there is no second listener.\<close>

lemma submit_event_no_progress:
  assumes "\<not> has_progress d"
  shows "submit_event tm en d st = submit en d st"
proof -
  have start: "animation_start w = (None, w)" if "\<not> has_progress (dom w)" for w
    using that by (simp add: animation_start_def)
  have rest: "submit_rest tm en orig p c fd (None, emit (Fetch resume_url fd) w0) =
      (case generate_resume en p c fd w0 of
         (None, w') \<Rightarrow> (Done, None, set_button False orig w')
       | (Some (stg, error), w') \<Rightarrow>
           (Failed stg, None, set_button False orig (catch_block error w')))"
    for orig p c fd w0
    unfolding submit_rest_def generate_resume_def generate_cover_letter_def thrown_def Let_def
    by (simp split: fetch_result.split sum.split prod.split option.split)
  have keep: "\<not> has_progress (dom (snd (submit en d st)))"
    using assms by (simp add: submit_keeps_progress)
  show ?thesis
  proof (cases "submit_button d")
    case None
    with assms show ?thesis
      by (simp add: submit_event_def submit_sync_unfold submit_unfold start has_progress_def)
  next
    case b: (Some b)
    show ?thesis
    proof (cases "gate_blocks (read_plan st) (read_credits st)")
      case True
      with b assms show ?thesis
        by (simp add: submit_event_def submit_sync_unfold submit_unfold start has_progress_def)
    next
      case gate: False
      show ?thesis
      proof (cases "formData d")
        case None
        with b gate assms show ?thesis
          by (simp add: submit_event_def submit_sync_unfold submit_unfold start
                has_progress_def)
      next
        case fd: (Some fd)
        show ?thesis
        proof (cases "first_missing fd requiredFields")
          case (Some key)
          with b gate fd assms show ?thesis
            by (simp add: submit_event_def submit_sync_unfold submit_unfold start
                  has_progress_def)
        next
          case valid: None
          define w0 where "w0 = progress_reset (started d st)"
          have np: "\<not> has_progress (dom (emit (Fetch resume_url fd) w0))"
            using assms by (simp add: w0_def has_progress_def)
          have sync: "submit_sync \<lparr>dom = d, storage = st, trace = []\<rparr> =
              Inr (innerHTML b, read_plan st, read_credits st, fd, emit (Fetch resume_url fd) w0)"
            using b gate fd valid by (simp add: submit_sync_unfold w0_def)
          obtain x w' where g: "generate_resume en (read_plan st) (read_credits st) fd w0
              = (x, w')"
            by (cases "generate_resume en (read_plan st) (read_credits st) fd w0")
          have run: "submit en d st =
              (case x of None \<Rightarrow> (Done, set_button False (innerHTML b) w')
               | Some (stg, error) \<Rightarrow>
                   (Failed stg, set_button False (innerHTML b) (catch_block error w')))"
            using b gate fd valid g by (simp add: submit_unfold w0_def)
          show ?thesis
          proof (cases x)
            case None
            with keep run have "\<not> has_progress (dom (set_button False (innerHTML b) w'))"
              by simp
            then have "progress_timeout (set_button False (innerHTML b) w')
                = set_button False (innerHTML b) w'"
              by (simp add: progress_timeout_def)
            with None show ?thesis
              by (simp add: submit_event_def sync start [OF np] rest g run)
          next
            case (Some se)
            obtain stg error where "se = (stg, error)"
              by (cases se)
            with Some show ?thesis
              by (simp add: submit_event_def sync start [OF np] rest g run)
          qed
        qed
      qed
    qed
  qed
qed

text \<open>
  The whole submit event on a page without \<^verbatim>\<open>#credit-count\<close>, when both artifacts are
  retrieved.
\<close>

lemma submit_event_no_credit_count:
  assumes "submit_button d = Some b" "\<not> gate_blocks (read_plan st) (read_credits st)"
    "formData d = Some fd" "first_missing fd requiredFields = None"
    "resume_blob en = Inr rb" "cover_letter_blob en = Inr cb" "credit_count d = None"
  shows "fst (submit_event tm en d st) = Failed Unexpected"
    and "filter (\<lambda>e. \<not> is_later e) (trace (snd (submit_event tm en d st))) =
      [Announce msg_generating, SetBusy True, StorageGet credits_key, StorageGet plan_key]
      @ (if has_progress d then [ProgressReset] else [])
      @ [Fetch resume_url fd, Download rb resume_filename,
         Fetch cover_letter_url fd, Download cb cover_letter_filename]
      @ (if read_plan st \<noteq> premium then [StorageSet credits_key (new_credits st)] else [])
      @ [ConsoleError (Exn (ascii ''TypeError'') (null_error_message en)),
         Toast (error_prefix
                @ error_text (Exn (ascii ''TypeError'') (null_error_message en))) Error,
         Announce msg_error_occurred]
      @ (if progress_container d \<noteq> None then [ProgressHide] else [])
      @ [SetBusy False]"
    and "storage (snd (submit_event tm en d st)) =
      (if read_plan st \<noteq> premium then st(credits_key \<mapsto> new_credits st) else st)"
    and "toast (dom (snd (submit_event tm en d st))) =
      Some (error_prefix @ error_text (Exn (ascii ''TypeError'') (null_error_message en)),
            Error)"
    and "status_text (dom (snd (submit_event tm en d st))) = Some msg_error_occurred"
    and "has_progress d \<Longrightarrow>
      AnimationTick 100 \<in> set (trace (snd (submit_event tm en d st)))
      \<and> progress_fill (dom (snd (submit_event tm en d st))) = Some (ascii ''100%'')
      \<and> progress_text (dom (snd (submit_event tm en d st))) = Some (ascii ''Done!'')
      \<and> progress_container (dom (snd (submit_event tm en d st))) = Some (ascii ''none'')"
    and "\<not> has_progress d \<Longrightarrow> filter is_later (trace (snd (submit_event tm en d st))) = []"
proof -
  have run: "submit en d st =
     (Failed Unexpected,
      set_button False (innerHTML b)
        (catch_block (Exn (ascii ''TypeError'') (null_error_message en))
           (credits_updated d st fd rb cb)))"
    using assms by (rule submit_no_credit_count)
  note f = submit_event_follows [of tm en d st]
  have a: "agree (snd (submit_event tm en d st)) (snd (submit en d st))"
    using f by simp
  have r: "reaches_requests d st"
    using assms by (simp add: reaches_requests_def)
  show "fst (submit_event tm en d st) = Failed Unexpected"
    using f by (simp add: run)
  have "filter (\<lambda>e. \<not> is_later e) (trace (snd (submit_event tm en d st)))
      = filter (\<lambda>e. \<not> is_later e) (trace (snd (submit en d st)))"
    using a by (simp add: agree_def)
  then show "filter (\<lambda>e. \<not> is_later e) (trace (snd (submit_event tm en d st))) =
      [Announce msg_generating, SetBusy True, StorageGet credits_key, StorageGet plan_key]
      @ (if has_progress d then [ProgressReset] else [])
      @ [Fetch resume_url fd, Download rb resume_filename,
         Fetch cover_letter_url fd, Download cb cover_letter_filename]
      @ (if read_plan st \<noteq> premium then [StorageSet credits_key (new_credits st)] else [])
      @ [ConsoleError (Exn (ascii ''TypeError'') (null_error_message en)),
         Toast (error_prefix
                @ error_text (Exn (ascii ''TypeError'') (null_error_message en))) Error,
         Announce msg_error_occurred]
      @ (if progress_container d \<noteq> None then [ProgressHide] else [])
      @ [SetBusy False]"
    by (simp add: run)
  have "storage (snd (submit_event tm en d st)) = storage (snd (submit en d st))"
    using a by (simp add: agree_def)
  then show "storage (snd (submit_event tm en d st)) =
      (if read_plan st \<noteq> premium then st(credits_key \<mapsto> new_credits st) else st)"
    by (simp add: run)
  have "toast (dom (snd (submit_event tm en d st))) = toast (dom (snd (submit en d st)))"
    using a by (simp add: agree_def)
  then show "toast (dom (snd (submit_event tm en d st))) =
      Some (error_prefix @ error_text (Exn (ascii ''TypeError'') (null_error_message en)),
            Error)"
    by (simp add: run dom_catch_block)
  have "status_text (dom (snd (submit_event tm en d st)))
      = status_text (dom (snd (submit en d st)))"
    using a by (simp add: agree_def)
  then show "status_text (dom (snd (submit_event tm en d st))) = Some msg_error_occurred"
    by (simp add: run dom_catch_block)
  show "AnimationTick 100 \<in> set (trace (snd (submit_event tm en d st)))
      \<and> progress_fill (dom (snd (submit_event tm en d st))) = Some (ascii ''100%'')
      \<and> progress_text (dom (snd (submit_event tm en d st))) = Some (ascii ''Done!'')
      \<and> progress_container (dom (snd (submit_event tm en d st))) = Some (ascii ''none'')"
    if "has_progress d"
  proof -
    from that have "progress_container d \<noteq> None"
      by (auto simp: has_progress_def)
    with f r that show ?thesis
      by (simp add: run)
  qed
  show "filter is_later (trace (snd (submit_event tm en d st))) = []"
    if "\<not> has_progress d"
    using that by (simp add: submit_event_no_progress run)
qed

text \<open>
  The same run when no callback of the interval comes before the end of the first
  listener: the whole trace.
\<close>

lemma submit_event_late_trace:
  assumes "submit_button d = Some b" "\<not> gate_blocks (read_plan st) (read_credits st)"
    "formData d = Some fd" "first_missing fd requiredFields = None"
    "resume_blob en = Inr rb" "cover_letter_blob en = Inr cb" "credit_count d = None"
    "has_progress d"
  shows "trace (snd (submit_event timing_late en d st)) =
      [Announce msg_generating, SetBusy True, StorageGet credits_key, StorageGet plan_key,
       ProgressReset, Fetch resume_url fd, AnimationStart, Download rb resume_filename,
       Fetch cover_letter_url fd, Download cb cover_letter_filename]
      @ (if read_plan st \<noteq> premium then [StorageSet credits_key (new_credits st)] else [])
      @ [ConsoleError (Exn (ascii ''TypeError'') (null_error_message en)),
         Toast (error_prefix
                @ error_text (Exn (ascii ''TypeError'') (null_error_message en))) Error,
         Announce msg_error_occurred, ProgressHide, SetBusy False,
         AnimationTick 10, AnimationTick 20, AnimationTick 30, AnimationTick 40,
         AnimationTick 50, AnimationTick 60, AnimationTick 70, AnimationTick 80,
         AnimationTick 90, AnimationTick 100]"
proof -
  obtain resumeRes where r: "resume_reply en = Fulfilled resumeRes" "ok resumeRes"
      "blob_result resumeRes = Inr rb"
    using assms(5)
    by (auto simp: resume_blob_def reply_blob_def split: fetch_result.splits if_splits)
  obtain coverLetterRes where c: "cover_letter_reply en = Fulfilled coverLetterRes"
      "ok coverLetterRes" "blob_result coverLetterRes = Inr cb"
    using assms(6)
    by (auto simp: cover_letter_blob_def reply_blob_def split: fetch_result.splits if_splits)
  have sync: "submit_sync \<lparr>dom = d, storage = st, trace = []\<rparr> =
      Inr (innerHTML b, read_plan st, read_credits st, fd,
           emit (Fetch resume_url fd) (progress_reset (started d st)))"
    using assms(1-4) by (simp add: submit_sync_unfold)
  have p: "progress_container d \<noteq> None" "progress_fill d \<noteq> None" "progress_text d \<noteq> None"
    using assms(8) by (simp_all add: has_progress_def)
  show ?thesis
    using p assms(7)
    by (simp add: submit_event_def sync animation_start_def submit_rest_def timing_late_def
          Let_def r c update_credits_and_ui_def thrown_def catch_block_def progress_hide_def
          progress_reset_def started_def has_progress_def emit_def downloadBlob_def
          setItem_def set_button_def announce_def showToast_def new_credits_def
          numeral_eq_Suc animation_tick_def)
qed

section \<open>The example inputs\<close>

lemma formData_page_filled: "formData page_filled = Some record_filled"
  by (simp add: formData_def page_filled_def record_filled_def getVal_def or_default_def
        trim_def is_white_space_def ascii_def)

lemma first_missing_record_filled: "first_missing record_filled requiredFields = None"
  by (simp add: requiredFields_def record_filled_def ascii_def)

lemma submit_button_page_filled:
  "submit_button page_filled = Some \<lparr>disabled = False, innerHTML = ascii ''Generate''\<rparr>"
  by (simp add: page_filled_def)

lemma credit_count_page_filled: "credit_count page_filled = Some (ascii ''1'')"
  by (simp add: page_filled_def)

lemma has_progress_page_filled: "has_progress page_filled"
  by (simp add: has_progress_def page_filled_def)

lemma formData_page_no_industry:
  "formData page_no_industry = Some (record_filled\<lparr>industry := []\<rparr>)"
  by (simp add: formData_def page_no_industry_def page_filled_def record_filled_def getVal_def
        or_default_def trim_def is_white_space_def ascii_def)

lemma first_missing_no_industry:
  "first_missing (record_filled\<lparr>industry := []\<rparr>) requiredFields = Some Industry"
  by (simp add: requiredFields_def record_filled_def ascii_def)

lemma submit_button_page_no_industry:
  "submit_button page_no_industry = Some \<lparr>disabled = False, innerHTML = ascii ''Generate''\<rparr>"
  by (simp add: page_no_industry_def page_filled_def)

lemma read_storage_one_credit:
  "read_credits storage_one_credit = Num 1" "read_plan storage_one_credit = free"
  by (simp_all add: read_credits_def read_plan_def storage_one_credit_def or_default_def
        parseInt10_examples)

lemma gate_storage_one_credit:
  "\<not> gate_blocks (read_plan storage_one_credit) (read_credits storage_one_credit)"
  by (simp add: read_storage_one_credit gate_blocks_def js_le_def)

lemma read_storage_no_credit:
  "read_credits storage_no_credit = Num 0" "read_plan storage_no_credit = free"
  by (simp_all add: read_credits_def read_plan_def storage_no_credit_def or_default_def
        parseInt10_examples free_def)

lemma gate_storage_no_credit:
  "gate_blocks (read_plan storage_no_credit) (read_credits storage_no_credit)"
  by (simp add: read_storage_no_credit gate_blocks_def js_le_def)

lemma read_storage_garbled:
  "read_credits storage_garbled = NaN" "read_plan storage_garbled = free"
  by (simp_all add: read_credits_def read_plan_def storage_garbled_def or_default_def
        parseInt10_examples free_def)

lemma gate_storage_garbled:
  "\<not> gate_blocks (read_plan storage_garbled) (read_credits storage_garbled)"
  by (simp add: read_storage_garbled gate_blocks_def js_le_def)

lemma read_storage_premium:
  "read_credits storage_premium = Num 0" "read_plan storage_premium = premium"
  by (simp_all add: read_credits_def read_plan_def storage_premium_def or_default_def
        parseInt10_examples premium_def)

lemma gate_storage_premium:
  "\<not> gate_blocks (read_plan storage_premium) (read_credits storage_premium)"
  by (simp add: read_storage_premium gate_blocks_def)

lemma read_storage_gold:
  "read_credits storage_gold = Num 1" "read_plan storage_gold = ascii ''gold''"
  by (simp_all add: read_credits_def read_plan_def storage_gold_def or_default_def
        parseInt10_examples)

lemma gate_storage_gold:
  "\<not> gate_blocks (read_plan storage_gold) (read_credits storage_gold)"
  by (simp add: read_storage_gold gate_blocks_def js_le_def)

lemma reaches_requests_page_filled: "reaches_requests page_filled storage_one_credit"
  by (simp add: reaches_requests_def submit_button_page_filled gate_storage_one_credit
        formData_page_filled first_missing_record_filled)

lemma replies_env_cover_letter_500:
  "retrieved (resume_reply env_cover_letter_500) = Some [1]"
  "request_failed (cover_letter_reply env_cover_letter_500)"
  by (simp_all add: env_cover_letter_500_def env_ok_def retrieved_def request_failed_def)

lemma blobs_env_ok: "resume_blob env_ok = Inr [1]" "cover_letter_blob env_ok = Inr [2]"
  by (simp_all add: resume_blob_def cover_letter_blob_def reply_blob_def env_ok_def)

lemma submit_done_page_filled:
  assumes "\<not> gate_blocks (read_plan st) (read_credits st)"
  shows "submit env_ok page_filled st =
     (Done,
      set_button False (ascii ''Generate'')
        (progress_done (announce msg_complete (showToast msg_ready Success
          (set_credit_count (shown_credits st)
             (credits_updated page_filled st record_filled [1] [2]))))))"
  using submit_done [OF submit_button_page_filled assms formData_page_filled
      first_missing_record_filled blobs_env_ok credit_count_page_filled]
  by simp

lemma submit_invalid_page_no_industry:
  "submit en page_no_industry storage_one_credit =
     (Failed Validation,
      set_button False (ascii ''Generate'')
        (showToast msg_required Error (started page_no_industry storage_one_credit)))"
  using submit_invalid [OF submit_button_page_no_industry gate_storage_one_credit
      formData_page_no_industry first_missing_no_industry]
  by simp

section \<open>The claims\<close>

text \<open>
  C1, as the code has it. For every submission in which the resume request succeeds
  but the cover-letter request fails (transport error or non-success status), the
  persisted credit balance is unchanged and the cover letter is never offered; but a
  run that got as far as the requests has offered the resume for download before it
  asked for the cover letter, and ends as a failure of the cover-letter request: its
  requests and downloads are, in this order, the resume request, the download of the
  resume and the cover-letter request.
\<close>

theorem cover_letter_failure_after_resume:
  assumes "retrieved (resume_reply en) = Some rb"
    and "request_failed (cover_letter_reply en)"
  shows "filter is_download (trace (snd (submit en d st))) =
           (if reaches_requests d st then [Download rb resume_filename] else [])
       \<and> filter is_storage_write (trace (snd (submit en d st))) = []
       \<and> storage (snd (submit en d st)) = st
       \<and> (reaches_requests d st \<longrightarrow> fst (submit en d st) = Failed CoverLetterRequest)
       \<and> (reaches_requests d st \<longrightarrow>
            (\<exists>fd. formData d = Some fd
               \<and> filter is_request_or_download (trace (snd (submit en d st))) =
                   [Fetch resume_url fd, Download rb resume_filename,
                    Fetch cover_letter_url fd]))"
proof -
  have rb: "resume_blob en = Inr rb"
    using assms(1) retrieved_blob [of "resume_reply en" rb msg_resume_failed]
    by (simp add: resume_blob_def)
  obtain e where e: "cover_letter_blob en = Inl e"
    using request_failed_blob [OF assms(2)] unfolding cover_letter_blob_def by blast
  show ?thesis
  proof (cases rule: submit_cases [where d = d and st = st and en = en])
    case no_button
    then show ?thesis by (simp add: submit_no_button reaches_requests_def)
  next
    case (gate_blocked b)
    then show ?thesis by (simp add: submit_gate_blocked reaches_requests_def)
  next
    case (malformed_tag b)
    then show ?thesis by (simp add: submit_malformed_tag reaches_requests_def)
  next
    case (invalid b fd key)
    then show ?thesis by (simp add: submit_invalid reaches_requests_def)
  next
    case (resume_failed b fd e')
    with rb show ?thesis by simp
  next
    case (cover_letter_failed b fd rb' e')
    with rb have "rb' = rb" by simp
    with cover_letter_failed show ?thesis
      by (simp add: submit_cover_letter_failed reaches_requests_def
            is_request_or_download_def)
  next
    case (no_credit_count b fd rb' cb)
    with e show ?thesis by simp
  next
    case (succeeded b fd rb' cb x)
    with e show ?thesis by simp
  qed
qed

theorem cover_letter_failure_after_resume_witness:
  "retrieved (resume_reply env_cover_letter_500) = Some [1]
   \<and> request_failed (cover_letter_reply env_cover_letter_500)
   \<and> reaches_requests page_filled storage_one_credit
   \<and> filter is_download
       (trace (snd (submit env_cover_letter_500 page_filled storage_one_credit)))
       = [Download [1] resume_filename]
   \<and> filter is_storage_write
       (trace (snd (submit env_cover_letter_500 page_filled storage_one_credit))) = []
   \<and> storage (snd (submit env_cover_letter_500 page_filled storage_one_credit))
       = storage_one_credit
   \<and> fst (submit env_cover_letter_500 page_filled storage_one_credit)
       = Failed CoverLetterRequest
   \<and> formData page_filled = Some record_filled
   \<and> filter is_request_or_download
       (trace (snd (submit env_cover_letter_500 page_filled storage_one_credit)))
       = [Fetch resume_url record_filled, Download [1] resume_filename,
          Fetch cover_letter_url record_filled]"
  using cover_letter_failure_after_resume
    [OF replies_env_cover_letter_500, of page_filled storage_one_credit]
    replies_env_cover_letter_500 reaches_requests_page_filled
  by (simp add: formData_page_filled)

text \<open>
  C1 as stated fails: with one credit on the free plan, a filled form, a resume reply
  that succeeds and a cover-letter reply of status 500, the run has offered the resume
  for download.
\<close>

theorem resume_offered_before_cover_letter_fails:
  "retrieved (resume_reply env_cover_letter_500) = Some [1]
   \<and> request_failed (cover_letter_reply env_cover_letter_500)
   \<and> filter is_download
       (trace (snd (submit env_cover_letter_500 page_filled storage_one_credit)))
       = [Download [1] resume_filename]"
proof -
  have "resume_blob env_cover_letter_500 = Inr [1]"
    by (simp add: resume_blob_def reply_blob_def env_cover_letter_500_def env_ok_def)
  moreover have "cover_letter_blob env_cover_letter_500
      = Inl (Exn (ascii ''Error'') msg_cover_letter_failed)"
    by (simp add: cover_letter_blob_def reply_blob_def env_cover_letter_500_def env_ok_def)
  ultimately have "submit env_cover_letter_500 page_filled storage_one_credit =
     (Failed CoverLetterRequest,
      set_button False (ascii ''Generate'')
        (catch_block (Exn (ascii ''Error'') msg_cover_letter_failed)
           (cover_letter_requested page_filled storage_one_credit record_filled [1])))"
    using submit_cover_letter_failed [OF submit_button_page_filled gate_storage_one_credit
        formData_page_filled first_missing_record_filled]
    by simp
  then show ?thesis
    by (simp add: replies_env_cover_letter_500)
qed

text \<open>
  C2, as the code has it. The handler reads the credits and the plan from the storage
  and evaluates the credit gate before it looks at the form. For every submission in
  which some required field (current position, years of experience, target position
  or industry) is empty after trimming, the run ends at the credit gate when the gate
  blocks and at the validation otherwise; in both cases it has read the storage twice,
  written nothing to it, issued no request and shown one error toast.
\<close>

theorem missing_field_ends_without_request:
  assumes "submit_button d = Some b" and "formData d = Some fd"
    and "current_position fd = [] \<or> years_experience fd = [] \<or> target_position fd = []
         \<or> industry fd = []"
  shows "fst (submit en d st) =
           (if gate_blocks (read_plan st) (read_credits st) then Failed CreditGate
            else Failed Validation)
       \<and> trace (snd (submit en d st)) =
           [Announce msg_generating, SetBusy True, StorageGet credits_key, StorageGet plan_key,
            Toast (if gate_blocks (read_plan st) (read_credits st) then msg_no_credits
                   else msg_required) Error,
            SetBusy False]
       \<and> storage (snd (submit en d st)) = st"
proof (cases "gate_blocks (read_plan st) (read_credits st)")
  case True
  with assms(1) show ?thesis by (simp add: submit_gate_blocked)
next
  case False
  from assms(3) obtain key where "first_missing fd requiredFields = Some key"
    using first_missing_None_iff [of fd] by (cases "first_missing fd requiredFields") auto
  with assms(1,2) False show ?thesis by (simp add: submit_invalid)
qed

theorem missing_field_ends_without_request_witness:
  "submit_button page_no_industry = Some \<lparr>disabled = False, innerHTML = ascii ''Generate''\<rparr>
   \<and> formData page_no_industry = Some (record_filled\<lparr>industry := []\<rparr>)
   \<and> industry (record_filled\<lparr>industry := []\<rparr>) = []
   \<and> \<not> gate_blocks (read_plan storage_one_credit) (read_credits storage_one_credit)
   \<and> fst (submit env_ok page_no_industry storage_one_credit) = Failed Validation
   \<and> trace (snd (submit env_ok page_no_industry storage_one_credit)) =
       [Announce msg_generating, SetBusy True, StorageGet credits_key, StorageGet plan_key,
        Toast msg_required Error, SetBusy False]
   \<and> storage (snd (submit env_ok page_no_industry storage_one_credit)) = storage_one_credit"
  using missing_field_ends_without_request
    [OF submit_button_page_no_industry formData_page_no_industry,
     of env_ok storage_one_credit]
    submit_button_page_no_industry formData_page_no_industry gate_storage_one_credit
  by simp

text \<open>
  C2 as stated fails: on the free plan with no credit left and an industry of two
  spaces, the run has read the storage twice and ends at the credit gate, not at the
  validation.
\<close>

theorem credit_gate_comes_before_validation:
  "map_option industry (formData page_no_industry) = Some []
   \<and> fst (submit env_ok page_no_industry storage_no_credit) = Failed CreditGate
   \<and> filter is_storage_read (trace (snd (submit env_ok page_no_industry storage_no_credit)))
       = [StorageGet credits_key, StorageGet plan_key]"
  using submit_gate_blocked [OF submit_button_page_no_industry gate_storage_no_credit, of env_ok]
  by (simp add: formData_page_no_industry)

text \<open>
  C3. For every submission in which the resume request errors or returns a non-success
  status, the cover-letter request is never issued and the persisted plan and credits
  are not modified: the trace of the run has no request to the cover-letter endpoint
  and no storage write, and the storage after the run is the storage before it.
\<close>

theorem resume_failure_stops_the_run:
  assumes "request_failed (resume_reply en)"
  shows "filter (is_request_to cover_letter_url) (trace (snd (submit en d st))) = []
       \<and> filter is_storage_write (trace (snd (submit en d st))) = []
       \<and> storage (snd (submit en d st)) = st"
proof -
  obtain e where e: "resume_blob en = Inl e"
    using request_failed_blob [OF assms] unfolding resume_blob_def by blast
  show ?thesis
  proof (cases rule: submit_cases [where d = d and st = st and en = en])
    case no_button
    then show ?thesis by (simp add: submit_no_button)
  next
    case (gate_blocked b)
    then show ?thesis by (simp add: submit_gate_blocked)
  next
    case (malformed_tag b)
    then show ?thesis by (simp add: submit_malformed_tag)
  next
    case (invalid b fd key)
    then show ?thesis by (simp add: submit_invalid)
  next
    case (resume_failed b fd e)
    then show ?thesis by (simp add: submit_resume_failed)
  next
    case (cover_letter_failed b fd rb e')
    with e show ?thesis by simp
  next
    case (no_credit_count b fd rb cb)
    with e show ?thesis by simp
  next
    case (succeeded b fd rb cb x)
    with e show ?thesis by simp
  qed
qed

theorem resume_failure_stops_the_run_witness:
  "request_failed (resume_reply env_resume_500)
   \<and> filter (is_request_to cover_letter_url)
       (trace (snd (submit env_resume_500 page_filled storage_one_credit))) = []
   \<and> filter is_storage_write
       (trace (snd (submit env_resume_500 page_filled storage_one_credit))) = []
   \<and> storage (snd (submit env_resume_500 page_filled storage_one_credit)) = storage_one_credit"
proof -
  have h: "request_failed (resume_reply env_resume_500)"
    by (simp add: request_failed_def env_resume_500_def env_ok_def)
  show ?thesis
    using h resume_failure_stops_the_run [OF h, of page_filled storage_one_credit] by simp
qed

text \<open>
  C4, as the code has it. For every submission that succeeds end-to-end (the run ends
  in \<open>Done\<close>): on the premium plan the storage is unchanged and the credit count
  shows the infinity sign; on any other plan, when the credits read from the storage
  are an integer \<open>n\<close> (a safe integer, so that the Number arithmetic is exact), then
  \<open>n\<close> is positive, \<open>n - 1\<close> is written to the storage and read back from it, and the
  credit count shows \<open>n - 1\<close>; when the credits read are not a number, \<^verbatim>\<open>NaN\<close> is
  written to the storage, read back from it and shown as the credit count.
\<close>

theorem successful_run_updates_credits:
  assumes "fst (submit en d st) = Done"
  shows "(read_plan st = premium \<longrightarrow>
            storage (snd (submit en d st)) = st
          \<and> credit_count (dom (snd (submit en d st))) = Some infinity_sign)
       \<and> (read_plan st \<noteq> premium \<longrightarrow> read_credits st = Num n \<longrightarrow> safe_integer n \<longrightarrow>
            0 < n
          \<and> storage (snd (submit en d st)) = st(credits_key \<mapsto> number_to_string (Num (n - 1)))
          \<and> read_credits (storage (snd (submit en d st))) = Num (n - 1)
          \<and> credit_count (dom (snd (submit en d st))) = Some (number_to_string (Num (n - 1))))
       \<and> (read_plan st \<noteq> premium \<longrightarrow> read_credits st = NaN \<longrightarrow>
            storage (snd (submit en d st)) = st(credits_key \<mapsto> ascii ''NaN'')
          \<and> read_credits (storage (snd (submit en d st))) = NaN
          \<and> credit_count (dom (snd (submit en d st))) = Some (ascii ''NaN''))"
  using submit_Done_result [OF assms]
  by (auto simp: shown_credits_def new_credits_def js_minus_one_def gate_blocks_def js_le_def
        read_credits_written read_credits_NaN_written number_to_string_examples)

theorem successful_run_updates_credits_witness:
  "fst (submit env_ok page_filled storage_one_credit) = Done
   \<and> read_plan storage_one_credit \<noteq> premium \<and> read_credits storage_one_credit = Num 1
   \<and> safe_integer 1
   \<and> storage (snd (submit env_ok page_filled storage_one_credit))
       = storage_one_credit(credits_key \<mapsto> ascii ''0'')
   \<and> read_credits (storage (snd (submit env_ok page_filled storage_one_credit))) = Num 0
   \<and> credit_count (dom (snd (submit env_ok page_filled storage_one_credit)))
       = Some (ascii ''0'')
   \<and> fst (submit env_ok page_filled storage_premium) = Done
   \<and> read_plan storage_premium = premium
   \<and> storage (snd (submit env_ok page_filled storage_premium)) = storage_premium
   \<and> credit_count (dom (snd (submit env_ok page_filled storage_premium)))
       = Some infinity_sign
   \<and> fst (submit env_ok page_filled storage_garbled) = Done
   \<and> read_plan storage_garbled \<noteq> premium \<and> read_credits storage_garbled = NaN
   \<and> storage (snd (submit env_ok page_filled storage_garbled))
       = storage_garbled(credits_key \<mapsto> ascii ''NaN'')
   \<and> credit_count (dom (snd (submit env_ok page_filled storage_garbled)))
       = Some (ascii ''NaN'')"
proof -
  have a: "fst (submit env_ok page_filled storage_one_credit) = Done"
    by (simp add: submit_done_page_filled [OF gate_storage_one_credit])
  have b: "fst (submit env_ok page_filled storage_premium) = Done"
    by (simp add: submit_done_page_filled [OF gate_storage_premium])
  have c: "fst (submit env_ok page_filled storage_garbled) = Done"
    by (simp add: submit_done_page_filled [OF gate_storage_garbled])
  have s: "safe_integer 1"
    by (simp add: safe_integer_def)
  show ?thesis
    using successful_run_updates_credits [OF a, of 1] successful_run_updates_credits [OF b]
      successful_run_updates_credits [OF c] a b c s
    by (simp add: read_storage_one_credit read_storage_premium read_storage_garbled
          number_to_string_examples
          read_credits_written [where n = 0, unfolded number_to_string_examples])
qed

text \<open>
  C4 as stated fails: on the free plan with the stored credits \<^verbatim>\<open>abc\<close>, a filled form
  and two successful requests, the run ends in \<open>Done\<close>, and what it writes to the
  storage and shows as the credit count is \<^verbatim>\<open>NaN\<close>, not a balance lowered by one.
\<close>

theorem unparsable_credits_are_not_lowered_by_one:
  "fst (submit env_ok page_filled storage_garbled) = Done
   \<and> read_plan storage_garbled \<noteq> premium
   \<and> read_credits storage_garbled = NaN
   \<and> storage (snd (submit env_ok page_filled storage_garbled)) credits_key
       = Some (ascii ''NaN'')
   \<and> read_credits (storage (snd (submit env_ok page_filled storage_garbled))) = NaN
   \<and> credit_count (dom (snd (submit env_ok page_filled storage_garbled)))
       = Some (ascii ''NaN'')"
  by (simp add: submit_done_page_filled [OF gate_storage_garbled] read_storage_garbled
        shown_credits_def new_credits_def js_minus_one_def number_to_string_examples
        read_credits_NaN_written)

text \<open>
  C5, as the code has it. The credit gate lets a submission through iff the plan is
  \<^verbatim>\<open>premium\<close> (whatever the credits) or the credits read from the storage are greater
  than 0 or are not a number at all: it blocks only a number that is at most 0. A run
  ends at the credit gate iff the form has its submit button and the gate blocks. For
  every submission on the free plan (indeed on any plan but premium) with credits 0,
  the run issues no request and leaves the storage alone, and ends at the credit gate.
\<close>

theorem credit_gate_rule:
  "(\<not> gate_blocks userPlan credits \<longleftrightarrow>
      userPlan = premium \<or> credits = NaN \<or> js_gt credits 0)
   \<and> (fst (submit en d st) = Failed CreditGate \<longleftrightarrow>
        submit_button d \<noteq> None \<and> gate_blocks (read_plan st) (read_credits st))
   \<and> (read_plan st \<noteq> premium \<longrightarrow> read_credits st = Num 0 \<longrightarrow>
        filter is_request (trace (snd (submit en d st))) = []
      \<and> storage (snd (submit en d st)) = st
      \<and> (submit_button d \<noteq> None \<longrightarrow> fst (submit en d st) = Failed CreditGate))"
proof -
  have "\<not> gate_blocks userPlan credits \<longleftrightarrow>
      userPlan = premium \<or> credits = NaN \<or> js_gt credits 0"
    by (cases credits) (auto simp: gate_blocks_def js_le_def js_gt_def)
  moreover have "gate_blocks (read_plan st) (read_credits st)"
    if "read_plan st \<noteq> premium" "read_credits st = Num 0"
    using that by (simp add: gate_blocks_def js_le_def)
  ultimately show ?thesis
    using fst_submit_CreditGate [of en d st] gate_blocked_no_effect [of st en d]
    by blast
qed

theorem credit_gate_rule_witness:
  "read_plan storage_no_credit = free \<and> free \<noteq> premium
   \<and> read_credits storage_no_credit = Num 0
   \<and> submit_button page_filled \<noteq> None
   \<and> gate_blocks free (Num 0)
   \<and> fst (submit env_ok page_filled storage_no_credit) = Failed CreditGate
   \<and> filter is_request (trace (snd (submit env_ok page_filled storage_no_credit))) = []
   \<and> storage (snd (submit env_ok page_filled storage_no_credit)) = storage_no_credit
   \<and> \<not> gate_blocks premium (Num 0)"
  using credit_gate_rule [of free "Num 0" env_ok page_filled storage_no_credit]
    credit_gate_rule [of premium "Num 0" env_ok page_filled storage_no_credit]
  by (simp add: read_storage_no_credit submit_button_page_filled js_gt_def)

text \<open>
  C5 as stated fails: with the stored credits \<^verbatim>\<open>abc\<close> on the free plan, the plan is
  not premium and the credits are not greater than 0, and yet the gate lets the
  submission through and the run ends in \<open>Done\<close>.
\<close>

theorem gate_admits_unparsable_credits:
  "read_plan storage_garbled \<noteq> premium
   \<and> \<not> js_gt (read_credits storage_garbled) 0
   \<and> \<not> gate_blocks (read_plan storage_garbled) (read_credits storage_garbled)
   \<and> fst (submit env_ok page_filled storage_garbled) = Done"
  by (simp add: submit_done_page_filled [OF gate_storage_garbled] gate_storage_garbled)
    (simp add: read_storage_garbled js_gt_def)

text \<open>
  C6, as the code has it. For every submission rejected by validation, the failure
  surfaced to the user is the one error toast \<^verbatim>\<open>Please fill out all required fields.\<close>,
  the same whichever required fields are missing; it names none of them. (The loop
  stops at the first required field that is empty.)
\<close>

theorem validation_failure_names_no_field:
  assumes "fst (submit en d st) = Failed Validation"
  shows "toast (dom (snd (submit en d st))) = Some (msg_required, Error)
       \<and> filter is_toast (trace (snd (submit en d st))) = [Toast msg_required Error]
       \<and> (\<exists>fd key. formData d = Some fd \<and> first_missing fd requiredFields = Some key)
       \<and> \<not> names_field msg_required f"
  using submit_Validation_result [OF assms] msg_required_names_no_field [of f] by simp

theorem validation_failure_names_no_field_witness:
  "fst (submit env_ok page_no_industry storage_one_credit) = Failed Validation
   \<and> toast (dom (snd (submit env_ok page_no_industry storage_one_credit)))
       = Some (msg_required, Error)
   \<and> filter is_toast (trace (snd (submit env_ok page_no_industry storage_one_credit)))
       = [Toast msg_required Error]
   \<and> \<not> names_field msg_required Industry"
proof -
  have a: "fst (submit env_ok page_no_industry storage_one_credit) = Failed Validation"
    by (simp add: submit_invalid_page_no_industry)
  show ?thesis
    using validation_failure_names_no_field [OF a, of Industry] a by simp
qed

text \<open>
  C6 as stated fails: with one credit on the free plan and an industry of two spaces,
  the industry is the one missing required field, the run ends at the validation, and
  the toast it shows does not name the industry.
\<close>

theorem missing_industry_is_not_named:
  "first_missing (record_filled\<lparr>industry := []\<rparr>) requiredFields = Some Industry
   \<and> formData page_no_industry = Some (record_filled\<lparr>industry := []\<rparr>)
   \<and> fst (submit env_ok page_no_industry storage_one_credit) = Failed Validation
   \<and> toast (dom (snd (submit env_ok page_no_industry storage_one_credit)))
       = Some (msg_required, Error)
   \<and> \<not> names_field msg_required Industry"
  by (simp add: submit_invalid_page_no_industry first_missing_no_industry
        formData_page_no_industry msg_required_names_no_field)

text \<open>
  C7, as the code has it. Over all runs that start from a storage whose credits are a
  non-negative integer \<open>n\<close> (a safe integer): a run leaves the storage as it is or
  writes the credits lowered by exactly 1; it lowers them only when the plan is not
  premium (the code treats every other plan value as it treats \<^verbatim>\<open>free\<close>), only when
  \<open>n\<close> is positive, and only after both artifacts have been retrieved and downloaded;
  after any sequence of runs the credits are an integer between 0 and \<open>n\<close>.
\<close>

theorem credits_only_lowered_by_one:
  assumes "read_credits st = Num n" and "0 \<le> n" and "safe_integer n"
  shows "((storage (snd (submit en d st)) = st
            \<and> filter is_storage_write (trace (snd (submit en d st))) = [])
          \<or> (storage (snd (submit en d st)) = st(credits_key \<mapsto> number_to_string (Num (n - 1)))
            \<and> read_credits (storage (snd (submit en d st))) = Num (n - 1)
            \<and> read_plan st \<noteq> premium \<and> 0 < n
            \<and> (\<exists>rb cb. retrieved (resume_reply en) = Some rb
                  \<and> retrieved (cover_letter_reply en) = Some cb
                  \<and> filter is_download_or_write (trace (snd (submit en d st))) =
                      [Download rb resume_filename, Download cb cover_letter_filename,
                       StorageSet credits_key (number_to_string (Num (n - 1)))])))
       \<and> (\<exists>m. read_credits (submit_all rs st) = Num m \<and> 0 \<le> m \<and> m \<le> n)"
proof -
  have "new_credits st = number_to_string (Num (n - 1))"
    using assms(1) by (simp add: new_credits_def js_minus_one_def)
  moreover have "0 < n" if "\<not> gate_blocks (read_plan st) (read_credits st)"
    "read_plan st \<noteq> premium"
    using that assms(1) by (simp add: gate_blocks_def js_le_def)
  ultimately show ?thesis
    using submit_storage [of en d st] submit_all_credits [OF assms(1,2), of rs]
    by (auto simp: read_credits_written)
qed

theorem credits_only_lowered_by_one_witness:
  "read_credits storage_one_credit = Num 1 \<and> (0::int) \<le> 1 \<and> safe_integer 1
   \<and> storage (snd (submit env_ok page_filled storage_one_credit))
       = storage_one_credit(credits_key \<mapsto> ascii ''0'')
   \<and> read_credits (storage (snd (submit env_ok page_filled storage_one_credit))) = Num 0
   \<and> read_plan storage_one_credit \<noteq> premium
   \<and> storage (snd (submit env_resume_500 page_filled storage_one_credit)) = storage_one_credit
   \<and> read_credits
        (submit_all [(env_resume_500, page_filled), (env_ok, page_filled), (env_ok, page_filled)]
           storage_one_credit) = Num 0"
proof -
  have a: "read_credits storage_one_credit = Num 1" "(0::int) \<le> 1" "safe_integer 1"
    by (simp_all add: read_storage_one_credit safe_integer_def)
  have s1: "storage (snd (submit env_ok page_filled storage_one_credit))
      = storage_one_credit(credits_key \<mapsto> ascii ''0'')"
    by (simp add: submit_done_page_filled [OF gate_storage_one_credit] read_storage_one_credit
          new_credits_def js_minus_one_def number_to_string_examples)
  have "request_failed (resume_reply env_resume_500)"
    by (simp add: request_failed_def env_resume_500_def env_ok_def)
  then have "resume_blob env_resume_500 = Inl (Exn (ascii ''Error'') msg_resume_failed)"
    by (simp add: resume_blob_def reply_blob_def request_failed_def env_resume_500_def
          env_ok_def)
  then have s2: "storage (snd (submit env_resume_500 page_filled storage_one_credit))
      = storage_one_credit"
    using submit_resume_failed [OF submit_button_page_filled gate_storage_one_credit
        formData_page_filled first_missing_record_filled]
    by simp
  have g: "gate_blocks (read_plan (storage_one_credit(credits_key \<mapsto> ascii ''0'')))
      (read_credits (storage_one_credit(credits_key \<mapsto> ascii ''0'')))"
    by (simp add: read_credits_written [where n = 0, unfolded number_to_string_examples]
          read_storage_one_credit gate_blocks_def js_le_def)
  have s3: "storage (snd (submit env_ok page_filled
      (storage_one_credit(credits_key \<mapsto> ascii ''0''))))
      = storage_one_credit(credits_key \<mapsto> ascii ''0'')"
    using gate_blocked_no_effect [OF g, of env_ok page_filled] by simp
  show ?thesis
    using credits_only_lowered_by_one [OF a, of env_ok page_filled
        "[(env_resume_500, page_filled), (env_ok, page_filled), (env_ok, page_filled)]"]
      a s1 s2 s3
    by (simp add: read_storage_one_credit
          read_credits_written [where n = 0, unfolded number_to_string_examples])
qed

text \<open>
  C7 as stated fails: with the stored plan \<^verbatim>\<open>gold\<close>, which is neither \<^verbatim>\<open>free\<close> nor
  \<^verbatim>\<open>premium\<close>, and one credit, a successful run lowers the credits to 0.
\<close>

theorem credits_lowered_on_a_plan_other_than_free:
  "read_plan storage_gold \<noteq> free \<and> read_plan storage_gold \<noteq> premium
   \<and> read_credits storage_gold = Num 1
   \<and> fst (submit env_ok page_filled storage_gold) = Done
   \<and> storage (snd (submit env_ok page_filled storage_gold)) credits_key = Some (ascii ''0'')
   \<and> read_credits (storage (snd (submit env_ok page_filled storage_gold))) = Num 0"
  by (simp add: submit_done_page_filled [OF gate_storage_gold] read_storage_gold
        gold_is_no_plan new_credits_def js_minus_one_def number_to_string_examples
        read_credits_written [where n = 0, unfolded number_to_string_examples])

text \<open>
  C8. Gathering the form data leaves the world as it is, so that gathering again gives
  the same record; the record is a function of the values of the form controls and of
  the skill tags alone: the storage, the trace and the rest of the page do not matter.
  A run of the handler does not change what is gathered, and every request it issues
  carries the record gathered from the page it started on.
\<close>

theorem gathering_is_pure:
  "snd (gather w) = w
   \<and> gather (snd (gather w)) = gather w
   \<and> (field_value (dom w') = field_value (dom w) \<longrightarrow> skill_tags (dom w') = skill_tags (dom w)
        \<longrightarrow> fst (gather w') = fst (gather w))
   \<and> formData (dom (snd (submit en d st))) = formData d
   \<and> (Fetch u fd \<in> set (trace (snd (submit en d st))) \<longrightarrow> formData d = Some fd)"
  using formData_frame [of "dom w'" "dom w"]
    formData_frame [of "dom (snd (submit en d st))" d] submit_keeps_form [of en d st]
    requests_carry_formData [of u fd en d st]
  by (simp add: gather_def)

theorem gathering_is_pure_witness:
  "field_value (dom (started page_filled storage_no_credit))
     = field_value (dom \<lparr>dom = page_filled, storage = storage_one_credit, trace = []\<rparr>)
   \<and> skill_tags (dom (started page_filled storage_no_credit))
     = skill_tags (dom \<lparr>dom = page_filled, storage = storage_one_credit, trace = []\<rparr>)
   \<and> fst (gather (started page_filled storage_no_credit))
     = fst (gather \<lparr>dom = page_filled, storage = storage_one_credit, trace = []\<rparr>)
   \<and> fst (gather \<lparr>dom = page_filled, storage = storage_one_credit, trace = []\<rparr>)
     = Some record_filled
   \<and> gather (snd (gather \<lparr>dom = page_filled, storage = storage_one_credit, trace = []\<rparr>))
     = (Some record_filled, \<lparr>dom = page_filled, storage = storage_one_credit, trace = []\<rparr>)
   \<and> Fetch resume_url record_filled
       \<in> set (trace (snd (submit env_ok page_filled storage_one_credit)))
   \<and> formData page_filled = Some record_filled
   \<and> formData (dom (snd (submit env_ok page_filled storage_one_credit))) = Some record_filled"
proof -
  have "Fetch resume_url record_filled
      \<in> set (trace (snd (submit env_ok page_filled storage_one_credit)))"
    by (simp add: submit_done_page_filled [OF gate_storage_one_credit])
  then show ?thesis
    using gathering_is_pure
      [of "\<lparr>dom = page_filled, storage = storage_one_credit, trace = []\<rparr>"
          "started page_filled storage_no_credit" env_ok page_filled storage_one_credit
          resume_url record_filled]
    by (simp add: gather_def formData_page_filled)
qed

text \<open>
  C9. If the credits read from the storage are not a number (\<^verbatim>\<open>parseInt\<close> of line 73
  yields \<^verbatim>\<open>NaN\<close>; an empty stored string is replaced by \<^verbatim>\<open>'1'\<close> before it is
  parsed), the credit gate allows the submission on the free plan, as on any plan:
  the gate blocks only when the plan is not premium and the parsed value is a number
  that is at most 0. After a successful run on a plan other than premium, \<^verbatim>\<open>NaN\<close> is
  what the storage holds as the credits, and it is read back as \<^verbatim>\<open>NaN\<close>.
\<close>

theorem unparsable_credits_pass_the_gate:
  assumes "read_credits st = NaN"
  shows "\<not> gate_blocks free (read_credits st)
       \<and> \<not> gate_blocks (read_plan st) (read_credits st)
       \<and> (gate_blocks userPlan credits \<longleftrightarrow>
            userPlan \<noteq> premium \<and> (\<exists>n. credits = Num n \<and> n \<le> 0))
       \<and> (fst (submit en d st) = Done \<longrightarrow> read_plan st \<noteq> premium \<longrightarrow>
            storage (snd (submit en d st)) = st(credits_key \<mapsto> ascii ''NaN'')
          \<and> read_credits (storage (snd (submit en d st))) = NaN)"
proof -
  have "storage (snd (submit en d st)) = st(credits_key \<mapsto> ascii ''NaN'')"
    if "fst (submit en d st) = Done" "read_plan st \<noteq> premium"
    using submit_Done_result [OF that(1)] that(2) assms
    by (simp add: new_credits_def js_minus_one_def number_to_string_examples)
  then show ?thesis
    using assms gate_blocks_iff [of userPlan credits]
    by (simp add: gate_blocks_def js_le_def read_credits_NaN_written)
qed

theorem unparsable_credits_pass_the_gate_witness:
  "read_credits storage_garbled = NaN
   \<and> \<not> gate_blocks free (read_credits storage_garbled)
   \<and> fst (submit env_ok page_filled storage_garbled) = Done
   \<and> read_plan storage_garbled \<noteq> premium
   \<and> storage (snd (submit env_ok page_filled storage_garbled))
       = storage_garbled(credits_key \<mapsto> ascii ''NaN'')
   \<and> read_credits (storage (snd (submit env_ok page_filled storage_garbled))) = NaN"
proof -
  have a: "read_credits storage_garbled = NaN"
    by (rule read_storage_garbled)
  have b: "fst (submit env_ok page_filled storage_garbled) = Done"
    by (simp add: submit_done_page_filled [OF gate_storage_garbled])
  show ?thesis
    using unparsable_credits_pass_the_gate [OF a, of free "Num 0" env_ok page_filled] a b
    by (simp add: read_storage_garbled read_credits_NaN_written)
qed

text \<open>
  C10, as the code has it. If \<^verbatim>\<open>#credit-count\<close> is not in the document on an otherwise
  fully successful run (the run reaches the requests and both artifacts are retrieved),
  the submit event ends, however the callbacks of the interval of the second listener
  fall between the steps of the first, in the \<^verbatim>\<open>catch\<close> block with the \<^verbatim>\<open>TypeError\<close> of
  line 147. The first listener has by then run exactly the steps listed: both downloads
  have been triggered and, on a plan other than premium, the lowered credits \<open>v\<close> have
  been written to the storage (\<^verbatim>\<open>NaN\<close> for credits that are not a number, \<open>n - 1\<close> for
  a safe integer \<open>n\<close>); the user gets an error toast and the status
  \<^verbatim>\<open>Error occurred.\<close>; the success toast, the status \<^verbatim>\<open>Generation complete.\<close> and the
  completion of the progress bar of lines 153 to 157 do not occur. On a page with the
  three progress elements the second listener (lines 249 to 262) nevertheless takes the
  fill to \<^verbatim>\<open>100%\<close> and the text to \<^verbatim>\<open>Done!\<close>, inside the container that the \<^verbatim>\<open>catch\<close>
  block has hidden; on a page without them the second listener is not registered and
  nothing of it occurs.
\<close>

theorem missing_credit_count_takes_the_error_path:
  assumes "submit_button d = Some b"
    and "\<not> gate_blocks (read_plan st) (read_credits st)"
    and "formData d = Some fd" and "first_missing fd requiredFields = None"
    and "retrieved (resume_reply en) = Some rb"
    and "retrieved (cover_letter_reply en) = Some cb"
    and "credit_count d = None"
  shows "fst (submit_event tm en d st) = Failed Unexpected
       \<and> (\<exists>v. filter (\<lambda>e. \<not> is_later e) (trace (snd (submit_event tm en d st))) =
               [Announce msg_generating, SetBusy True, StorageGet credits_key,
                StorageGet plan_key]
               @ (if has_progress d then [ProgressReset] else [])
               @ [Fetch resume_url fd, Download rb resume_filename,
                  Fetch cover_letter_url fd, Download cb cover_letter_filename]
               @ (if read_plan st \<noteq> premium then [StorageSet credits_key v] else [])
               @ [ConsoleError (Exn (ascii ''TypeError'') (null_error_message en)),
                  Toast (error_prefix
                         @ error_text (Exn (ascii ''TypeError'') (null_error_message en))) Error,
                  Announce msg_error_occurred]
               @ (if progress_container d \<noteq> None then [ProgressHide] else [])
               @ [SetBusy False]
             \<and> storage (snd (submit_event tm en d st)) =
                 (if read_plan st \<noteq> premium then st(credits_key \<mapsto> v) else st)
             \<and> (read_credits st = NaN \<longrightarrow> v = ascii ''NaN'')
             \<and> (\<forall>n. read_credits st = Num n \<longrightarrow> safe_integer n \<longrightarrow>
                   v = number_to_string (Num (n - 1))))
       \<and> toast (dom (snd (submit_event tm en d st))) =
           Some (error_prefix @ error_text (Exn (ascii ''TypeError'') (null_error_message en)),
                 Error)
       \<and> status_text (dom (snd (submit_event tm en d st))) = Some msg_error_occurred
       \<and> Toast msg_ready Success \<notin> set (trace (snd (submit_event tm en d st)))
       \<and> Announce msg_complete \<notin> set (trace (snd (submit_event tm en d st)))
       \<and> ProgressDone \<notin> set (trace (snd (submit_event tm en d st)))
       \<and> (has_progress d \<longrightarrow>
            AnimationTick 100 \<in> set (trace (snd (submit_event tm en d st)))
            \<and> progress_fill (dom (snd (submit_event tm en d st))) = Some (ascii ''100%'')
            \<and> progress_text (dom (snd (submit_event tm en d st))) = Some (ascii ''Done!'')
            \<and> progress_container (dom (snd (submit_event tm en d st)))
                = Some (ascii ''none''))
       \<and> (\<not> has_progress d \<longrightarrow>
            filter is_later (trace (snd (submit_event tm en d st))) = [])"
proof -
  have rb: "resume_blob en = Inr rb" and cb: "cover_letter_blob en = Inr cb"
    using assms(5,6) by (simp_all add: blob_retrieved)
  note e = submit_event_no_credit_count [OF assms(1-4) rb cb assms(7), of tm]
  have v: "(read_credits st = NaN \<longrightarrow> new_credits st = ascii ''NaN'')
      \<and> (\<forall>n. read_credits st = Num n \<longrightarrow> safe_integer n \<longrightarrow>
            new_credits st = number_to_string (Num (n - 1)))"
    by (simp add: new_credits_def js_minus_one_def number_to_string_examples)
  have written: "\<exists>v. filter (\<lambda>e. \<not> is_later e) (trace (snd (submit_event tm en d st))) =
               [Announce msg_generating, SetBusy True, StorageGet credits_key,
                StorageGet plan_key]
               @ (if has_progress d then [ProgressReset] else [])
               @ [Fetch resume_url fd, Download rb resume_filename,
                  Fetch cover_letter_url fd, Download cb cover_letter_filename]
               @ (if read_plan st \<noteq> premium then [StorageSet credits_key v] else [])
               @ [ConsoleError (Exn (ascii ''TypeError'') (null_error_message en)),
                  Toast (error_prefix
                         @ error_text (Exn (ascii ''TypeError'') (null_error_message en))) Error,
                  Announce msg_error_occurred]
               @ (if progress_container d \<noteq> None then [ProgressHide] else [])
               @ [SetBusy False]
             \<and> storage (snd (submit_event tm en d st)) =
                 (if read_plan st \<noteq> premium then st(credits_key \<mapsto> v) else st)
             \<and> (read_credits st = NaN \<longrightarrow> v = ascii ''NaN'')
             \<and> (\<forall>n. read_credits st = Num n \<longrightarrow> safe_integer n \<longrightarrow>
                   v = number_to_string (Num (n - 1)))"
    using e(2,3) v by (intro exI [of _ "new_credits st"] conjI) blast+
  have absent: "Toast msg_ready Success \<notin> set (trace (snd (submit_event tm en d st)))
       \<and> Announce msg_complete \<notin> set (trace (snd (submit_event tm en d st)))
       \<and> ProgressDone \<notin> set (trace (snd (submit_event tm en d st)))"
    using not_later_mem [of "Toast msg_ready Success" "trace (snd (submit_event tm en d st))"]
      not_later_mem [of "Announce msg_complete" "trace (snd (submit_event tm en d st))"]
      not_later_mem [of ProgressDone "trace (snd (submit_event tm en d st))"]
    by (simp add: e(2))
  from written absent e(1,4,5,6,7) show ?thesis
    by blast
qed

theorem missing_credit_count_takes_the_error_path_witness:
  "submit_button page_no_credit_count
     = Some \<lparr>disabled = False, innerHTML = ascii ''Generate''\<rparr>
   \<and> \<not> gate_blocks (read_plan storage_one_credit) (read_credits storage_one_credit)
   \<and> formData page_no_credit_count = Some record_filled
   \<and> first_missing record_filled requiredFields = None
   \<and> retrieved (resume_reply env_ok) = Some [1]
   \<and> retrieved (cover_letter_reply env_ok) = Some [2]
   \<and> credit_count page_no_credit_count = None
   \<and> has_progress page_no_credit_count
   \<and> fst (submit_event timing_spread env_ok page_no_credit_count storage_one_credit)
       = Failed Unexpected
   \<and> filter is_download_or_write
       (trace (snd (submit_event timing_spread env_ok page_no_credit_count
          storage_one_credit)))
       = [Download [1] resume_filename, Download [2] cover_letter_filename,
          StorageSet credits_key (ascii ''0'')]
   \<and> storage (snd (submit_event timing_spread env_ok page_no_credit_count
                      storage_one_credit))
       = storage_one_credit(credits_key \<mapsto> ascii ''0'')
   \<and> toast (dom (snd (submit_event timing_spread env_ok page_no_credit_count
                         storage_one_credit)))
       = Some (error_prefix @ ascii ''null has no properties'', Error)
   \<and> status_text (dom (snd (submit_event timing_spread env_ok page_no_credit_count
                               storage_one_credit)))
       = Some msg_error_occurred
   \<and> Toast msg_ready Success
       \<notin> set (trace (snd (submit_event timing_spread env_ok page_no_credit_count
                           storage_one_credit)))
   \<and> Announce msg_complete
       \<notin> set (trace (snd (submit_event timing_spread env_ok page_no_credit_count
                           storage_one_credit)))
   \<and> ProgressDone
       \<notin> set (trace (snd (submit_event timing_spread env_ok page_no_credit_count
                           storage_one_credit)))
   \<and> AnimationTick 100
       \<in> set (trace (snd (submit_event timing_spread env_ok page_no_credit_count
                           storage_one_credit)))
   \<and> progress_fill (dom (snd (submit_event timing_spread env_ok page_no_credit_count
                                 storage_one_credit)))
       = Some (ascii ''100%'')
   \<and> progress_text (dom (snd (submit_event timing_spread env_ok page_no_credit_count
                                 storage_one_credit)))
       = Some (ascii ''Done!'')
   \<and> progress_container (dom (snd (submit_event timing_spread env_ok page_no_credit_count
                                      storage_one_credit)))
       = Some (ascii ''none'')"
proof -
  have b: "submit_button page_no_credit_count
      = Some \<lparr>disabled = False, innerHTML = ascii ''Generate''\<rparr>"
    by (simp add: page_no_credit_count_def page_filled_def)
  have fd: "formData page_no_credit_count = Some record_filled"
    using formData_page_filled formData_frame [of page_no_credit_count page_filled]
    by (simp add: page_no_credit_count_def)
  have r: "retrieved (resume_reply env_ok) = Some [1]"
    "retrieved (cover_letter_reply env_ok) = Some [2]"
    by (simp_all add: retrieved_def env_ok_def)
  have c: "credit_count page_no_credit_count = None"
    by (simp add: page_no_credit_count_def)
  have p: "has_progress page_no_credit_count"
    by (simp add: has_progress_def page_no_credit_count_def page_filled_def)
  have m: "null_error_message env_ok = ascii ''null has no properties''"
    by (simp add: env_ok_def)
  have w: "filter is_download_or_write xs
      = filter is_download_or_write (filter (\<lambda>e. \<not> is_later e) xs)" for xs
    by (induction xs) (auto simp: is_download_or_write_def is_later_def is_download_def
          is_storage_write_def split: event.splits)
  have "filter is_download_or_write
       (trace (snd (submit_event timing_spread env_ok page_no_credit_count
          storage_one_credit)))
       = [Download [1] resume_filename, Download [2] cover_letter_filename,
          StorageSet credits_key (ascii ''0'')]"
    using missing_credit_count_takes_the_error_path
      [OF b gate_storage_one_credit fd first_missing_record_filled r c, of timing_spread]
    by (subst w)
      (auto simp: read_storage_one_credit is_download_or_write_def safe_integer_def
         number_to_string_examples)
  then show ?thesis
    using missing_credit_count_takes_the_error_path
      [OF b gate_storage_one_credit fd first_missing_record_filled r c, of timing_spread]
      b fd r c p gate_storage_one_credit first_missing_record_filled
    by (auto simp: read_storage_one_credit error_text_def m safe_integer_def
          number_to_string_examples)
qed

text \<open>
  C10 as stated fails: on a page that has the three progress elements and no
  \<^verbatim>\<open>#credit-count\<close>, with one credit on the free plan and both artifacts retrieved, the
  run takes the error path and the progress still completes: the interval of the
  second listener, none of whose callbacks runs here before the first listener has
  ended, sets the width of \<^verbatim>\<open>#progress-fill\<close> to \<^verbatim>\<open>100%\<close> and the text of
  \<^verbatim>\<open>#progress-text\<close> to \<^verbatim>\<open>Done!\<close>.
\<close>

theorem second_listener_completes_the_progress:
  "credit_count page_no_credit_count = None
   \<and> has_progress page_no_credit_count
   \<and> retrieved (resume_reply env_ok) = Some [1]
   \<and> retrieved (cover_letter_reply env_ok) = Some [2]
   \<and> fst (submit_event timing_late env_ok page_no_credit_count storage_one_credit)
       = Failed Unexpected
   \<and> trace (snd (submit_event timing_late env_ok page_no_credit_count storage_one_credit))
       = [Announce msg_generating, SetBusy True, StorageGet credits_key,
          StorageGet plan_key, ProgressReset, Fetch resume_url record_filled,
          AnimationStart, Download [1] resume_filename,
          Fetch cover_letter_url record_filled, Download [2] cover_letter_filename,
          StorageSet credits_key (ascii ''0''),
          ConsoleError (Exn (ascii ''TypeError'') (ascii ''null has no properties'')),
          Toast (error_prefix @ ascii ''null has no properties'') Error,
          Announce msg_error_occurred, ProgressHide, SetBusy False,
          AnimationTick 10, AnimationTick 20, AnimationTick 30, AnimationTick 40,
          AnimationTick 50, AnimationTick 60, AnimationTick 70, AnimationTick 80,
          AnimationTick 90, AnimationTick 100]
   \<and> progress_fill (dom (snd (submit_event timing_late env_ok page_no_credit_count
                                 storage_one_credit)))
       = Some (ascii ''100%'')
   \<and> progress_text (dom (snd (submit_event timing_late env_ok page_no_credit_count
                                 storage_one_credit)))
       = Some (ascii ''Done!'')"
proof -
  have b: "submit_button page_no_credit_count
      = Some \<lparr>disabled = False, innerHTML = ascii ''Generate''\<rparr>"
    by (simp add: page_no_credit_count_def page_filled_def)
  have fd: "formData page_no_credit_count = Some record_filled"
    using formData_page_filled formData_frame [of page_no_credit_count page_filled]
    by (simp add: page_no_credit_count_def)
  have r: "retrieved (resume_reply env_ok) = Some [1]"
    "retrieved (cover_letter_reply env_ok) = Some [2]"
    by (simp_all add: retrieved_def env_ok_def)
  have rb: "resume_blob env_ok = Inr [1]" and cb: "cover_letter_blob env_ok = Inr [2]"
    using r by (simp_all add: blob_retrieved)
  have c: "credit_count page_no_credit_count = None"
    by (simp add: page_no_credit_count_def)
  have p: "has_progress page_no_credit_count"
    by (simp add: has_progress_def page_no_credit_count_def page_filled_def)
  have m: "null_error_message env_ok = ascii ''null has no properties''"
    by (simp add: env_ok_def)
  have v: "new_credits storage_one_credit = ascii ''0''"
    by (simp add: new_credits_def read_storage_one_credit js_minus_one_def
          number_to_string_examples)
  note e = submit_event_no_credit_count
    [OF b gate_storage_one_credit fd first_missing_record_filled rb cb c, of timing_late]
  have t: "trace (snd (submit_event timing_late env_ok page_no_credit_count
                         storage_one_credit))
       = [Announce msg_generating, SetBusy True, StorageGet credits_key,
          StorageGet plan_key, ProgressReset, Fetch resume_url record_filled,
          AnimationStart, Download [1] resume_filename,
          Fetch cover_letter_url record_filled, Download [2] cover_letter_filename,
          StorageSet credits_key (ascii ''0''),
          ConsoleError (Exn (ascii ''TypeError'') (ascii ''null has no properties'')),
          Toast (error_prefix @ ascii ''null has no properties'') Error,
          Announce msg_error_occurred, ProgressHide, SetBusy False,
          AnimationTick 10, AnimationTick 20, AnimationTick 30, AnimationTick 40,
          AnimationTick 50, AnimationTick 60, AnimationTick 70, AnimationTick 80,
          AnimationTick 90, AnimationTick 100]"
    using submit_event_late_trace
      [OF b gate_storage_one_credit fd first_missing_record_filled rb cb c p]
    by (simp add: v m error_text_def read_storage_one_credit)
  from e(1) e(6) [OF p] t c p r show ?thesis
    by simp
qed

end
